theory Spec2Isabelle
  imports
    Complex_Main
    "HOL-Library.Char_ord"
    "HOL-Library.List_Lexorder"
    "HOL-Library.Product_Lexorder"
begin

section \<open>Calendar dates\<close>

text \<open>
  A \<^verbatim>\<open>pd.Timestamp\<close> at midnight is represented by its proleptic Gregorian ordinal
  (\<^verbatim>\<open>Timestamp.toordinal()\<close>: 0001-01-01 is day 1), so that adding
  \<^verbatim>\<open>pd.Timedelta(days=n)\<close> is adding \<open>n\<close>. Times of day and \<^verbatim>\<open>NaT\<close> are outside the
  model, and so are the bounds of the 64-bit nanosecond representation.
  \<^verbatim>\<open>weekday()\<close> is Monday = 0, ..., Saturday = 5, Sunday = 6.
\<close>

type_synonym timestamp = int

definition weekday :: "timestamp \<Rightarrow> int" where
  "weekday d = (d + 6) mod 7"

definition is_leap :: "int \<Rightarrow> bool" where
  "is_leap year = (year mod 4 = 0 \<and> (year mod 400 = 0 \<or> year mod 100 \<noteq> 0))"

definition days_before_year :: "int \<Rightarrow> int" where
  "days_before_year year =
     (let y = year - 1 in y * 365 + y div 4 - y div 100 + y div 400)"

definition days_before_month :: "int \<Rightarrow> int \<Rightarrow> int" where
  "days_before_month year month =
     [0, 31, 59, 90, 120, 151, 181, 212, 243, 273, 304, 334] ! nat (month - 1)
       + (if 2 < month \<and> is_leap year then 1 else 0)"

definition ymd2ord :: "int \<Rightarrow> int \<Rightarrow> int \<Rightarrow> timestamp" where
  "ymd2ord year month day = days_before_year year + days_before_month year month + day"

definition is_digit :: "char \<Rightarrow> bool" where
  "is_digit c = (c \<in> set ''0123456789'')"

definition int_of_digits :: "string \<Rightarrow> int" where
  "int_of_digits s = foldl (\<lambda>a c. 10 * a + (of_char c - 48)) 0 s"

text \<open>
  \<^verbatim>\<open>pd.to_datetime\<close> on the one layout the program passes as a literal,
  \<^verbatim>\<open>YYYY/MM/DD\<close>.
\<close>

definition to_datetime :: "string \<Rightarrow> timestamp" where
  "to_datetime s =
     ymd2ord (int_of_digits (take 4 s)) (int_of_digits (take 2 (drop 5 s)))
       (int_of_digits (take 2 (drop 8 s)))"

definition date_range :: "timestamp \<Rightarrow> timestamp \<Rightarrow> timestamp list" where
  "date_range start end = [start..end]"

section \<open>The holiday calendar\<close>

definition get_holiday_list :: "timestamp list" where
  "get_holiday_list = map to_datetime
     [''2024/01/01'', ''2024/02/12'', ''2024/02/26'', ''2024/04/08'', ''2024/04/15'',
      ''2024/04/16'', ''2024/05/01'', ''2024/05/06'', ''2024/05/22'', ''2024/06/03'',
      ''2024/07/22'', ''2024/07/29'', ''2024/08/12'', ''2024/10/14'', ''2024/10/23'',
      ''2024/12/05'', ''2024/12/10'', ''2024/12/31'']"

section \<open>The date normalizer\<close>

text \<open>
  The \<^verbatim>\<open>while date in holiday_list\<close> loop of
  \<^verbatim>\<open>validate_start_date_end_date\<close>. It ends because the list is finite.
\<close>

function holiday_loop :: "timestamp \<Rightarrow> timestamp list \<Rightarrow> timestamp" where
  "holiday_loop date holiday_list =
     (if date \<in> set holiday_list then holiday_loop (date + 1) holiday_list else date)"
  by pat_completeness auto
termination
proof (relation "measure (\<lambda>(date, holiday_list). nat (Max (set holiday_list) + 1 - date))")
  fix date :: timestamp and holiday_list :: "timestamp list"
  assume "date \<in> set holiday_list"
  then have "date \<le> Max (set holiday_list)"
    by simp
  then show "((date + 1, holiday_list), (date, holiday_list))
      \<in> measure (\<lambda>(date, holiday_list). nat (Max (set holiday_list) + 1 - date))"
    by simp
qed simp

declare holiday_loop.simps [simp del]

text \<open>The first statement of the function: a Saturday or Sunday moves to the next Monday.\<close>

definition weekend_skip :: "timestamp \<Rightarrow> timestamp" where
  "weekend_skip date = (if weekday date \<in> {5, 6} then date + (7 - weekday date) else date)"

definition validate_start_date_end_date :: "timestamp \<Rightarrow> timestamp list \<Rightarrow> timestamp" where
  "validate_start_date_end_date date holiday_list =
     holiday_loop (weekend_skip date) holiday_list"

section \<open>Counting working days\<close>

fun work_day_loop :: "timestamp list \<Rightarrow> timestamp list \<Rightarrow> nat \<Rightarrow> nat" where
  "work_day_loop holiday_list [] work_day = work_day"
| "work_day_loop holiday_list (date # rest) work_day =
     (if date \<in> set holiday_list then work_day_loop holiday_list rest work_day
      else if weekday date \<in> {5, 6} then work_day_loop holiday_list rest work_day
      else work_day_loop holiday_list rest (work_day + 1))"

definition get_work_day :: "timestamp \<Rightarrow> timestamp \<Rightarrow> timestamp list \<Rightarrow> nat" where
  "get_work_day start_date end_date holiday_list =
     (let work_day = work_day_loop holiday_list (date_range start_date end_date) 0
      in if work_day = 0 then 1 else work_day)"

text \<open>
  The glossary's working day, and the count the specification speaks of: the dates of an
  inclusive range that are neither Saturday/Sunday nor in the holiday list.
\<close>

definition working_day :: "timestamp list \<Rightarrow> timestamp \<Rightarrow> bool" where
  "working_day holiday_list d = (weekday d \<notin> {5, 6} \<and> d \<notin> set holiday_list)"

definition working_day_count :: "timestamp \<Rightarrow> timestamp \<Rightarrow> timestamp list \<Rightarrow> nat" where
  "working_day_count s e holiday_list = length (filter (working_day holiday_list) [s..e])"

section \<open>64-bit floating point\<close>

text \<open>
  A finite 64-bit float is represented by the real number it denotes. An arithmetic
  operation rounds its exact result to the nearest number with a significand of 53 bits,
  ties to the even significand: the loops scale the magnitude into the interval from
  \<open>2^52\<close> to \<open>2^53\<close>, keeping the weight of the last bit, and the scaled value is
  rounded to an integer. The exponent is not bounded: overflow to infinity, gradual
  underflow, \<^verbatim>\<open>NaN\<close> and division by zero are outside the model.
\<close>

definition round_half_even :: "real \<Rightarrow> int" where
  "round_half_even y =
     (let f = \<lfloor>y\<rfloor>
      in if y - of_int f < 1 / 2 then f
         else if 1 / 2 < y - of_int f then f + 1
         else if even f then f else f + 1)"

function scale_up :: "real \<Rightarrow> real \<Rightarrow> real \<times> real" where
  "scale_up y ulp = (if 0 < y \<and> y < 2 ^ 52 then scale_up (2 * y) (ulp / 2) else (y, ulp))"
  by pat_completeness auto
termination
proof (relation "measure (\<lambda>(y, ulp). nat \<lceil>2 ^ 52 / y\<rceil>)")
  fix y ulp :: real
  assume a: "0 < y \<and> y < 2 ^ 52"
  define z where "z = 2 ^ 52 / y"
  have z: "1 < z"
    using a by (simp add: z_def)
  then have "2 \<le> \<lceil>z\<rceil>"
    by linarith
  moreover have "z \<le> of_int \<lceil>z\<rceil>"
    by linarith
  moreover have "(2 :: real) \<le> of_int \<lceil>z\<rceil>"
    using \<open>2 \<le> \<lceil>z\<rceil>\<close> by linarith
  ultimately have "z / 2 \<le> of_int \<lceil>z\<rceil> - 1"
    by linarith
  then have "z / 2 \<le> of_int (\<lceil>z\<rceil> - 1)"
    by simp
  then have "\<lceil>z / 2\<rceil> \<le> \<lceil>z\<rceil> - 1"
    by (simp only: ceiling_le_iff)
  then have "nat \<lceil>z / 2\<rceil> < nat \<lceil>z\<rceil>"
    using \<open>2 \<le> \<lceil>z\<rceil>\<close> by linarith
  moreover have "2 ^ 52 / (2 * y) = z / 2"
    by (simp add: z_def)
  ultimately have "nat \<lceil>2 ^ 52 / (2 * y)\<rceil> < nat \<lceil>2 ^ 52 / y\<rceil>"
    by (simp only: z_def)
  then show "((2 * y, ulp / 2), (y, ulp)) \<in> measure (\<lambda>(y, ulp). nat \<lceil>2 ^ 52 / y\<rceil>)"
    by (simp only: in_measure prod.case)
qed simp

function scale_down :: "real \<Rightarrow> real \<Rightarrow> real \<times> real" where
  "scale_down y ulp = (if 2 ^ 53 \<le> y then scale_down (y / 2) (2 * ulp) else (y, ulp))"
  by pat_completeness auto
termination
proof (relation "measure (\<lambda>(y, ulp). nat \<lfloor>y\<rfloor>)")
  fix y ulp :: real
  assume a: "2 ^ 53 \<le> y"
  have "(2 :: real) \<le> y"
    using a by simp
  moreover have "y - 1 < of_int \<lfloor>y\<rfloor>"
    by linarith
  ultimately have "y / 2 < of_int \<lfloor>y\<rfloor>"
    by linarith
  then have "\<lfloor>y / 2\<rfloor> < \<lfloor>y\<rfloor>"
    by (simp only: floor_less_iff)
  moreover have "0 < \<lfloor>y\<rfloor>"
    using \<open>2 \<le> y\<close> by linarith
  ultimately show "((y / 2, 2 * ulp), (y, ulp)) \<in> measure (\<lambda>(y, ulp). nat \<lfloor>y\<rfloor>)"
    by simp
qed simp

declare scale_up.simps [simp del] scale_down.simps [simp del]

definition float64 :: "real \<Rightarrow> real" where
  "float64 x =
     (if x = 0 then 0
      else case scale_up \<bar>x\<bar> 1 of
             (y, ulp) \<Rightarrow>
               (case scale_down y ulp of
                  (m, ulp') \<Rightarrow> sgn x * of_int (round_half_even m) * ulp'))"

definition truediv :: "real \<Rightarrow> real \<Rightarrow> real" where
  "truediv a b = float64 (a / b)"

section \<open>Tables\<close>

text \<open>
  A task row after \<^verbatim>\<open>preprocess_tasks\<close>, with the columns the pipeline reads.
  An empty CSV cell of a text column is \<^verbatim>\<open>NaN\<close>: \<open>None\<close>. The actual time and
  the hours derived from it are 64-bit floats.
\<close>

record task =
  task_id :: int
  userstory_id :: int
  assigned_to :: "string option"
  start_date :: timestamp
  end_date :: timestamp
  actual_time :: real

record userstory =
  us_userstory_id :: int
  us_subject :: string

record epic_row =
  epic_id :: int
  ep_userstory_id :: int
  ep_epic_name :: string

text \<open>
  The result of the first merge: the task columns (pandas renames the overlapping ones
  with the suffix \<^verbatim>\<open>_task\<close>, so \<open>assigned_to\<close> is the column
  \<^verbatim>\<open>assigned_to_task\<close>) and the user story's columns, null when the
  left join found no user story. The second merge adds the epic's columns likewise
  (\<open>epic_id_epic\<close> is the column \<^verbatim>\<open>epic_id\<close> of the merged table).
\<close>

record task_us = task +
  subject_userstory :: "string option"

record merged = task_us +
  epic_id_epic :: "int option"
  epic_name :: "string option"

record daily =
  date :: timestamp
  assignee :: "string option"
  daily_epic_name :: "string option"
  daily_task_id :: int
  hour :: real

section \<open>The daily allocation expander\<close>

text \<open>Lines 120 to 125 of \<^verbatim>\<open>get_task_daily_df\<close>: the normalized range of a row.\<close>

definition normalized_range :: "timestamp list \<Rightarrow> 'a task_scheme \<Rightarrow> timestamp \<times> timestamp" where
  "normalized_range holiday_list row =
     (let start = validate_start_date_end_date (start_date row) holiday_list;
          end = validate_start_date_end_date (end_date row) holiday_list;
          end = (if end < start then start else end)
      in (start, end))"

text \<open>The inner loop over the dates of the range, appending to \<^verbatim>\<open>task_daily_list\<close>.\<close>

fun date_loop ::
  "timestamp list \<Rightarrow> (timestamp \<Rightarrow> daily) \<Rightarrow> timestamp list \<Rightarrow> daily list \<Rightarrow> daily list" where
  "date_loop holiday_list mk [] task_daily_list = task_daily_list"
| "date_loop holiday_list mk (d # rest) task_daily_list =
     (if weekday d \<in> {5, 6} then date_loop holiday_list mk rest task_daily_list
      else if d \<in> set holiday_list then date_loop holiday_list mk rest task_daily_list
      else date_loop holiday_list mk rest (task_daily_list @ [mk d]))"

text \<open>
  Lines 130 and 131: the divisor \<^verbatim>\<open>total_date\<close> and the quotient
  \<^verbatim>\<open>hour = actual_time / total_date\<close>, a division of 64-bit floats.
\<close>

definition total_date :: "timestamp list \<Rightarrow> 'a task_scheme \<Rightarrow> nat" where
  "total_date holiday_list row =
     (case normalized_range holiday_list row of
        (start, end) \<Rightarrow> get_work_day start end holiday_list)"

definition hour_of :: "timestamp list \<Rightarrow> 'a task_scheme \<Rightarrow> real" where
  "hour_of holiday_list row = truediv (actual_time row) (real (total_date holiday_list row))"

text \<open>The body of the loop over the rows of the merged table.\<close>

definition row_body :: "timestamp list \<Rightarrow> merged \<Rightarrow> daily list \<Rightarrow> daily list" where
  "row_body holiday_list row task_daily_list =
     (case normalized_range holiday_list row of
        (start, end) \<Rightarrow>
          date_loop holiday_list
            (\<lambda>d. \<lparr>date = d, assignee = assigned_to row, daily_epic_name = epic_name row,
                  daily_task_id = task_id row, hour = hour_of holiday_list row\<rparr>)
            (date_range start end) task_daily_list)"

fun row_loop :: "timestamp list \<Rightarrow> merged list \<Rightarrow> daily list \<Rightarrow> daily list" where
  "row_loop holiday_list [] task_daily_list = task_daily_list"
| "row_loop holiday_list (row # rows) task_daily_list =
     row_loop holiday_list rows (row_body holiday_list row task_daily_list)"

text \<open>
  \<^verbatim>\<open>pd.DataFrame\<close> of a list of dictionaries takes its columns from the keys of
  the dictionaries: an empty list gives a table with no columns.
\<close>

record daily_df =
  df_columns :: "string list"
  df_rows :: "daily list"

definition DataFrame :: "daily list \<Rightarrow> daily_df" where
  "DataFrame task_daily_list =
     \<lparr>df_columns =
        (if task_daily_list = [] then []
         else [''date'', ''assignee'', ''epic_name'', ''task_id'', ''hour'']),
      df_rows = task_daily_list\<rparr>"

definition get_task_daily_df :: "merged list \<Rightarrow> daily_df" where
  "get_task_daily_df merge_data_df = DataFrame (row_loop get_holiday_list merge_data_df [])"

text \<open>The records one row contributes: the loop body run on an empty list.\<close>

definition task_records :: "timestamp list \<Rightarrow> merged \<Rightarrow> daily list" where
  "task_records holiday_list row = row_body holiday_list row []"

section \<open>Errors\<close>

text \<open>
  The exceptions of pandas the pipeline can meet: \<^verbatim>\<open>MergeError\<close> of a validated
  merge, \<^verbatim>\<open>ValueError\<close> (casting \<^verbatim>\<open>NaN\<close> to an integer, a date range
  from \<^verbatim>\<open>NaT\<close>, a pivot with duplicate entries), \<^verbatim>\<open>OverflowError\<close> (an
  integer outside 64 bits), \<^verbatim>\<open>KeyError\<close> (grouping by an absent column) and
  \<^verbatim>\<open>AttributeError\<close> (the \<^verbatim>\<open>.str\<close> accessor on a column that is not text).
\<close>

datatype error = MergeError | ValueError | OverflowError | KeyError | AttributeError

section \<open>Preprocessing the epics\<close>

text \<open>
  An epic as read from the CSV file; the cross-reference cell is text, or
  \<^verbatim>\<open>NaN\<close> when it is empty.
\<close>

record epic =
  ref :: int
  subject :: string
  related_user_stories :: "string option"

text \<open>
  \<^verbatim>\<open>re.findall(r"#(\d+)", s)\<close>: scanning from the left, every \<^verbatim>\<open>#\<close> followed
  by at least one digit yields the longest run of digits after it, and the scan goes on
  behind that run. Digits are the ASCII digits.
\<close>

function findall :: "string \<Rightarrow> string list" where
  "findall [] = []"
| "findall (c # cs) =
     (if c = CHR ''#'' \<and> takeWhile is_digit cs \<noteq> []
      then takeWhile is_digit cs # findall (dropWhile is_digit cs)
      else findall cs)"
  by pat_completeness auto
termination
proof (relation "measure length")
  fix c :: char and cs :: string
  have "length (dropWhile is_digit cs) \<le> length cs"
    by (rule length_dropWhile_le)
  then show "(dropWhile is_digit cs, c # cs) \<in> measure length"
    by simp
qed simp_all

text \<open>The occurrences of the pattern in an epic's cross-reference field.\<close>

definition occurrences :: "epic \<Rightarrow> string list" where
  "occurrences e = (case related_user_stories e of None \<Rightarrow> [] | Some s \<Rightarrow> findall s)"

text \<open>
  \<^verbatim>\<open>explode\<close>: one row per element of the list; a row whose list is empty, or
  whose cell was \<^verbatim>\<open>NaN\<close>, stays as one row with \<^verbatim>\<open>NaN\<close>.
\<close>

definition explode :: "epic list \<Rightarrow> (epic \<times> string option) list" where
  "explode epics =
     concat (map (\<lambda>e.
       case map_option findall (related_user_stories e) of
         None \<Rightarrow> [(e, None)]
       | Some [] \<Rightarrow> [(e, None)]
       | Some (m # ms) \<Rightarrow> map (\<lambda>x. (e, Some x)) (m # ms)) epics)"

text \<open>\<^verbatim>\<open>astype(int)\<close> on the exploded column, to 64-bit integers.\<close>

fun astype_int :: "string option \<Rightarrow> error + int" where
  "astype_int None = Inl ValueError"
| "astype_int (Some s) =
     (if int_of_digits s < 2 ^ 63 then Inr (int_of_digits s) else Inl OverflowError)"

fun astype_rows :: "(epic \<times> string option) list \<Rightarrow> error + epic_row list" where
  "astype_rows [] = Inr []"
| "astype_rows ((e, v) # rest) =
     (case astype_int v of
        Inl err \<Rightarrow> Inl err
      | Inr n \<Rightarrow>
          (case astype_rows rest of
             Inl err \<Rightarrow> Inl err
           | Inr rows \<Rightarrow>
               Inr (\<lparr>epic_id = ref e, ep_userstory_id = n, ep_epic_name = subject e\<rparr> # rows)))"

text \<open>
  A column of the CSV file whose cells are all empty is read as a column of floats, on
  which \<^verbatim>\<open>.str.findall\<close> raises before anything is exploded.
\<close>

definition preprocess_epics :: "epic list \<Rightarrow> error + epic_row list" where
  "preprocess_epics epics =
     (if epics \<noteq> [] \<and> list_all (\<lambda>e. related_user_stories e = None) epics
      then Inl AttributeError
      else astype_rows (explode epics))"

section \<open>The relational merge\<close>

text \<open>
  \<^verbatim>\<open>pd.merge(left, right, on=key, how="left", validate="m:1")\<close>: the validation
  fails when a key occurs twice on the right; otherwise every left row is paired with
  each right row of its key, or with nulls when there is none.
\<close>

definition left_merge ::
  "('l \<Rightarrow> int) \<Rightarrow> ('r \<Rightarrow> int) \<Rightarrow> ('l \<Rightarrow> 'r option \<Rightarrow> 'o) \<Rightarrow> 'l list \<Rightarrow> 'r list
     \<Rightarrow> error + 'o list" where
  "left_merge left_on right_on join left right =
     (if distinct (map right_on right)
      then Inr (concat (map (\<lambda>l.
             case filter (\<lambda>r. right_on r = left_on l) right of
               [] \<Rightarrow> [join l None]
             | m # ms \<Rightarrow> map (\<lambda>r. join l (Some r)) (m # ms)) left))
      else Inl MergeError)"

definition join_userstory :: "task \<Rightarrow> userstory option \<Rightarrow> task_us" where
  "join_userstory t u =
     \<lparr>task_id = task_id t, userstory_id = userstory_id t, assigned_to = assigned_to t,
      start_date = start_date t, end_date = end_date t, actual_time = actual_time t,
      subject_userstory = map_option us_subject u\<rparr>"

definition join_epic :: "task_us \<Rightarrow> epic_row option \<Rightarrow> merged" where
  "join_epic t e =
     \<lparr>task_id = task_id t, userstory_id = userstory_id t, assigned_to = assigned_to t,
      start_date = start_date t, end_date = end_date t, actual_time = actual_time t,
      subject_userstory = subject_userstory t,
      epic_id_epic = map_option epic_id e, epic_name = map_option ep_epic_name e\<rparr>"

definition merge_data :: "task list \<Rightarrow> userstory list \<Rightarrow> epic_row list \<Rightarrow> error + merged list" where
  "merge_data tasks userstories epics =
     (case left_merge userstory_id us_userstory_id join_userstory tasks userstories of
        Inl err \<Rightarrow> Inl err
      | Inr merge_df \<Rightarrow> left_merge userstory_id ep_userstory_id join_epic merge_df epics)"

section \<open>The calendar aggregator\<close>

text \<open>
  A pivoted table: the row index (dates), the column labels and the cells, row by row.
  The final \<^verbatim>\<open>reset_index\<close> and \<^verbatim>\<open>rename\<close> turn the index into the column
  \<^verbatim>\<open>date\<close>; the model keeps it as \<open>index\<close>.
\<close>

record 'a frame =
  index :: "timestamp list"
  columns :: "string list"
  cells :: "'a list list"

text \<open>
  \<^verbatim>\<open>groupby(["date", key]).agg({"hour": "sum"}).reset_index()\<close>: the rows whose
  key is null are dropped (\<^verbatim>\<open>dropna=True\<close> is the default of
  \<^verbatim>\<open>groupby\<close>), the groups come sorted, each with the sum of its hours.
\<close>

definition group_hours :: "(daily \<Rightarrow> string option) \<Rightarrow> daily list \<Rightarrow> timestamp \<Rightarrow> string \<Rightarrow> real" where
  "group_hours key rows d k =
     sum_list (map hour (filter (\<lambda>r. date r = d \<and> key r = Some k) rows))"

definition groupby_sum ::
  "(daily \<Rightarrow> string option) \<Rightarrow> daily list \<Rightarrow> ((timestamp \<times> string) \<times> real) list" where
  "groupby_sum key rows =
     map (\<lambda>(d, k). ((d, k), group_hours key rows d k))
       (sort (remdups (List.map_filter (\<lambda>r. map_option (Pair (date r)) (key r)) rows)))"

text \<open>
  \<^verbatim>\<open>pivot(index="date", columns=key, values="hour")\<close>: sorted distinct dates and
  keys; a combination with no row is \<^verbatim>\<open>NaN\<close>; a combination with two rows is an
  error.
\<close>

definition pivot :: "((timestamp \<times> string) \<times> real) list \<Rightarrow> error + real option frame" where
  "pivot grouped =
     (if distinct (map fst grouped)
      then Inr \<lparr>index = sort (remdups (map (fst \<circ> fst) grouped)),
                columns = sort (remdups (map (snd \<circ> fst) grouped)),
                cells = map (\<lambda>d. map (\<lambda>k. map_of grouped (d, k))
                                  (sort (remdups (map (snd \<circ> fst) grouped))))
                          (sort (remdups (map (fst \<circ> fst) grouped)))\<rparr>
      else Inl ValueError)"

definition fillna :: "real \<Rightarrow> real option frame \<Rightarrow> real frame" where
  "fillna v f =
     \<lparr>index = index f, columns = columns f,
      cells = map (map (\<lambda>c. case c of None \<Rightarrow> v | Some x \<Rightarrow> x)) (cells f)\<rparr>"

definition reindex :: "timestamp list \<Rightarrow> real \<Rightarrow> real frame \<Rightarrow> real frame" where
  "reindex new_index fill_value f =
     \<lparr>index = new_index, columns = columns f,
      cells = map (\<lambda>d. case map_of (zip (index f) (cells f)) d of
                          None \<Rightarrow> replicate (length (columns f)) fill_value
                        | Some row \<Rightarrow> row) new_index\<rparr>"

text \<open>
  The body shared, word for word, by \<^verbatim>\<open>get_assignee_hour_per_day_df\<close> and
  \<^verbatim>\<open>get_project_hour_per_day_df\<close>, which differ in the grouping column only.
  Grouping by a column the table does not have raises \<^verbatim>\<open>KeyError\<close>; the minimum
  and maximum of an empty index are \<^verbatim>\<open>NaT\<close>, which \<^verbatim>\<open>pd.date_range\<close>
  refuses.
\<close>

definition hour_per_day ::
  "string \<Rightarrow> (daily \<Rightarrow> string option) \<Rightarrow> daily_df \<Rightarrow> error + real frame" where
  "hour_per_day column key task_daily_df =
     (if ''date'' \<in> set (df_columns task_daily_df) \<and> column \<in> set (df_columns task_daily_df)
      then
        (case pivot (groupby_sum key (df_rows task_daily_df)) of
           Inl err \<Rightarrow> Inl err
         | Inr pivoted \<Rightarrow>
             (let filled = fillna 0 pivoted
              in if index filled = [] then Inl ValueError
                 else Inr (reindex
                             (date_range (Min (set (index filled))) (Max (set (index filled))))
                             0 filled)))
      else Inl KeyError)"

definition get_assignee_hour_per_day_df :: "daily_df \<Rightarrow> error + real frame" where
  "get_assignee_hour_per_day_df task_daily_df = hour_per_day ''assignee'' assignee task_daily_df"

definition get_project_hour_per_day_df :: "daily_df \<Rightarrow> error + real frame" where
  "get_project_hour_per_day_df task_daily_df =
     hour_per_day ''epic_name'' daily_epic_name task_daily_df"

text \<open>
  The dates and the key values of the allocation records whose grouping key is not null:
  the records the grouping keeps.
\<close>

definition keyed_dates :: "(daily \<Rightarrow> string option) \<Rightarrow> daily list \<Rightarrow> timestamp list" where
  "keyed_dates key rows = map date (filter (\<lambda>r. key r \<noteq> None) rows)"

definition key_values :: "(daily \<Rightarrow> string option) \<Rightarrow> daily list \<Rightarrow> string list" where
  "key_values key rows = List.map_filter key rows"

text \<open>The cell of a table at a date and a column label, if the table has both.\<close>

definition cell :: "'a frame \<Rightarrow> timestamp \<Rightarrow> string \<Rightarrow> 'a option" where
  "cell f d k =
     (case map_of (zip (index f) (cells f)) d of
        None \<Rightarrow> None
      | Some row \<Rightarrow> map_of (zip (columns f) row) k)"

section \<open>Facts about dates and the holiday list\<close>

lemma get_holiday_list_ordinals:
  "get_holiday_list =
     [738886, 738928, 738942, 738984, 738991, 738992, 739007, 739012, 739028, 739040,
      739089, 739096, 739110, 739173, 739182, 739225, 739230, 739251]"
  by (simp add: get_holiday_list_def to_datetime_def ymd2ord_def days_before_year_def
      days_before_month_def is_leap_def int_of_digits_def)

section \<open>Rounding to a 64-bit float\<close>





lemma truediv_values:
  "truediv 8 6 = 6004799503160661 / 4503599627370496"
  "truediv 8 4 = 2"
  "truediv 8 1 = 8"
  "truediv 4 1 = 4"
  by (simp_all add: truediv_def float64_def scale_up.simps scale_down.simps
      round_half_even_def)

section \<open>The normalizer's loop\<close>


lemma holiday_loop_ge: "d \<le> holiday_loop d hs"
proof (induction d hs rule: holiday_loop.induct)
  case (1 date holiday_list)
  show ?case
    using 1 by (subst holiday_loop.simps) auto
qed

lemma holiday_loop_notin: "holiday_loop d hs \<notin> set hs"
proof (induction d hs rule: holiday_loop.induct)
  case (1 date holiday_list)
  show ?case
    using 1 by (subst holiday_loop.simps) auto
qed

lemma holiday_loop_between: "d \<le> x \<Longrightarrow> x < holiday_loop d hs \<Longrightarrow> x \<in> set hs"
proof (induction d hs rule: holiday_loop.induct)
  case (1 date holiday_list)
  show ?case
  proof (cases "date \<in> set holiday_list")
    case True
    then have eq: "holiday_loop date holiday_list = holiday_loop (date + 1) holiday_list"
      by (subst holiday_loop.simps) simp
    show ?thesis
    proof (cases "x = date")
      case True
      with \<open>date \<in> set holiday_list\<close> show ?thesis by simp
    next
      case False
      with "1.prems" have "date + 1 \<le> x" by simp
      with "1.IH" [OF True] "1.prems" eq show ?thesis by simp
    qed
  next
    case False
    then have "holiday_loop date holiday_list = date"
      by (subst holiday_loop.simps) simp
    with "1.prems" show ?thesis by simp
  qed
qed

lemma weekend_skip_monday:
  "weekday d \<in> {5, 6} \<Longrightarrow>
     weekday (weekend_skip d) = 0 \<and> d < weekend_skip d \<and> weekend_skip d \<le> d + 2"
  unfolding weekend_skip_def weekday_def by auto presburger+

lemma weekend_skip_weekday: "weekday (weekend_skip d) \<notin> {5, 6}"
  using weekend_skip_monday [of d] by (cases "weekday d \<in> {5, 6}") (auto simp: weekend_skip_def)

text \<open>
  C2. For every date and holiday list the normalizer runs exactly this sequence. A Saturday
  or Sunday is moved once to the following Monday (at most two days ahead), any other
  date is left alone. From there the result is the first date that is not in the holiday
  list, every date passed on the way being a holiday. No weekend check follows: with a
  holiday on Friday 2024-01-05 the normalizer maps that Friday to Saturday 2024-01-06.
\<close>

theorem validate_start_date_end_date_sequence:
  "validate_start_date_end_date d hs = holiday_loop (weekend_skip d) hs
   \<and> (weekday d \<in> {5, 6} \<longrightarrow>
        weekday (weekend_skip d) = 0 \<and> d < weekend_skip d \<and> weekend_skip d \<le> d + 2)
   \<and> (weekday d \<notin> {5, 6} \<longrightarrow> weekend_skip d = d)
   \<and> weekend_skip d \<le> validate_start_date_end_date d hs
   \<and> validate_start_date_end_date d hs \<notin> set hs
   \<and> (\<forall>x. weekend_skip d \<le> x \<and> x < validate_start_date_end_date d hs \<longrightarrow> x \<in> set hs)
   \<and> validate_start_date_end_date (ymd2ord 2024 1 5) [ymd2ord 2024 1 5] = ymd2ord 2024 1 6
   \<and> weekday (ymd2ord 2024 1 6) = 5"
proof -
  have a: "weekday d \<in> {5, 6} \<longrightarrow>
      weekday (weekend_skip d) = 0 \<and> d < weekend_skip d \<and> weekend_skip d \<le> d + 2"
    using weekend_skip_monday by blast
  have b: "weekday d \<notin> {5, 6} \<longrightarrow> weekend_skip d = d"
    by (simp add: weekend_skip_def)
  have c: "\<forall>x. weekend_skip d \<le> x \<and> x < validate_start_date_end_date d hs \<longrightarrow> x \<in> set hs"
    unfolding validate_start_date_end_date_def using holiday_loop_between by blast
  have e: "validate_start_date_end_date (ymd2ord 2024 1 5) [ymd2ord 2024 1 5] = ymd2ord 2024 1 6"
    by (simp add: validate_start_date_end_date_def weekend_skip_def weekday_def ymd2ord_def
        days_before_year_def days_before_month_def is_leap_def holiday_loop.simps)
  have f: "weekday (ymd2ord 2024 1 6) = 5"
    by (simp add: weekday_def ymd2ord_def days_before_year_def days_before_month_def is_leap_def)
  show ?thesis
    using a b c e f
    by (simp add: validate_start_date_end_date_def holiday_loop_ge holiday_loop_notin)
qed

text \<open>
  Saturday 2024-01-06 with the holidays Monday 2024-01-08 and Tuesday 2024-01-09: moved to
  the Monday, then day by day to Wednesday 2024-01-10.
\<close>

theorem validate_start_date_end_date_sequence_witness:
  "weekday 738891 \<in> {5, 6}
   \<and> weekday (weekend_skip 738891) = 0
   \<and> weekend_skip 738891 = 738893
   \<and> validate_start_date_end_date 738891 [738893, 738894] = 738895
   \<and> validate_start_date_end_date 738891 [738893, 738894] \<notin> set [738893, 738894]
   \<and> 738894 \<in> set [738893, 738894 :: int]"
  using validate_start_date_end_date_sequence [of 738891 "[738893, 738894]"]
  by (simp add: validate_start_date_end_date_def weekend_skip_def weekday_def
      holiday_loop.simps)

section \<open>The working-day count and the expander's loops\<close>

lemma work_day_loop_count:
  "work_day_loop hs ds n = n + length (filter (working_day hs) ds)"
  by (induction ds arbitrary: n) (auto simp: working_day_def)

lemma get_work_day_count:
  "get_work_day s e hs = (if working_day_count s e hs = 0 then 1 else working_day_count s e hs)"
  by (simp add: get_work_day_def work_day_loop_count working_day_count_def date_range_def Let_def)

lemma date_loop_filter:
  "date_loop hs mk ds acc = acc @ map mk (filter (working_day hs) ds)"
  by (induction ds arbitrary: acc) (auto simp: working_day_def)

lemma row_body_append:
  "row_body hs row acc = acc @ task_records hs row"
  by (simp add: row_body_def task_records_def date_loop_filter split: prod.splits)

lemma row_loop_concat:
  "row_loop hs rows acc = acc @ concat (map (task_records hs) rows)"
proof (induction rows arbitrary: acc)
  case Nil
  show ?case by simp
next
  case (Cons row rows)
  show ?case
    by (simp add: Cons.IH row_body_append [of hs row acc])
qed

lemma task_records_eq:
  "task_records hs row =
     (case normalized_range hs row of
        (s, e) \<Rightarrow>
          map (\<lambda>d. \<lparr>date = d, assignee = assigned_to row, daily_epic_name = epic_name row,
                 daily_task_id = task_id row, hour = hour_of hs row\<rparr>)
            (filter (working_day hs) [s..e]))"
  by (simp add: task_records_def row_body_def date_loop_filter date_range_def split: prod.splits)

lemma normalized_start_working:
  "working_day get_holiday_list (validate_start_date_end_date d get_holiday_list)"
proof -
  let ?hs = get_holiday_list
  let ?r = "validate_start_date_end_date d ?hs"
  have notin: "?r \<notin> set ?hs"
    by (simp add: validate_start_date_end_date_def holiday_loop_notin)
  have ge: "weekend_skip d \<le> ?r"
    by (simp add: validate_start_date_end_date_def holiday_loop_ge)
  have "weekday ?r \<notin> {5, 6}"
  proof (cases "?r = weekend_skip d")
    case True
    then show ?thesis using weekend_skip_weekday [of d] by simp
  next
    case False
    with ge have "weekend_skip d \<le> ?r - 1" "?r - 1 < ?r" by simp_all
    then have "?r - 1 \<in> set ?hs"
      unfolding validate_start_date_end_date_def by (rule holiday_loop_between)
    then have "?r \<in> (\<lambda>x. x + 1) ` set ?hs"
      by force
    then show ?thesis
      unfolding get_holiday_list_ordinals by (auto simp: weekday_def)
  qed
  with notin show ?thesis by (simp add: working_day_def)
qed

lemma normalized_range_fst:
  "fst (normalized_range hs row) = validate_start_date_end_date (start_date row) hs"
  by (simp add: normalized_range_def Let_def)

lemma normalized_range_le: "fst (normalized_range hs row) \<le> snd (normalized_range hs row)"
  by (simp add: normalized_range_def Let_def)

text \<open>
  With the holiday list of the program no holiday is a Friday or a Saturday, so the
  normalized start is always a working day: in \<^verbatim>\<open>get_task_daily_df\<close> the count
  of working days of a row is never zero.
\<close>

lemma total_date_holiday_list:
  "normalized_range get_holiday_list row = (s, e) \<Longrightarrow> 0 < working_day_count s e get_holiday_list"
proof -
  assume r: "normalized_range get_holiday_list row = (s, e)"
  have "s = validate_start_date_end_date (start_date row) get_holiday_list"
    using normalized_range_fst [of get_holiday_list row] r by simp
  then have "working_day get_holiday_list s"
    by (simp add: normalized_start_working)
  moreover have "s \<le> e"
    using normalized_range_le [of get_holiday_list row] r by simp
  ultimately have "s \<in> set (filter (working_day get_holiday_list) [s..e])"
    by simp
  then show ?thesis
    unfolding working_day_count_def by (metis length_pos_if_in_set)
qed

section \<open>Claims about the normalized range, the count and the hours\<close>

text \<open>
  C7. For every task the start and the end date are normalized independently, and an end
  that then precedes the start is set to the start: the range that is expanded runs from
  the normalized start to an end that is not before it, so it holds at least one
  calendar day (the normalized start).
\<close>

theorem normalized_range_clamped:
  "fst (normalized_range hs row) = validate_start_date_end_date (start_date row) hs
   \<and> snd (normalized_range hs row) =
       (if validate_start_date_end_date (end_date row) hs
             < validate_start_date_end_date (start_date row) hs
        then validate_start_date_end_date (start_date row) hs
        else validate_start_date_end_date (end_date row) hs)
   \<and> fst (normalized_range hs row) \<le> snd (normalized_range hs row)
   \<and> fst (normalized_range hs row)
       \<in> set (date_range (fst (normalized_range hs row)) (snd (normalized_range hs row)))
   \<and> 1 \<le> length (date_range (fst (normalized_range hs row)) (snd (normalized_range hs row)))"
  by (auto simp: normalized_range_def Let_def date_range_def)

text \<open>
  A task entered with the end (Wednesday 2024-01-10) before the start (Friday 2024-01-12):
  the range is that Friday alone.
\<close>

theorem normalized_range_clamped_witness:
  "normalized_range get_holiday_list
     \<lparr>task_id = 1, userstory_id = 7, assigned_to = Some ''ann'',
      start_date = ymd2ord 2024 1 12, end_date = ymd2ord 2024 1 10, actual_time = 8\<rparr>
   = (ymd2ord 2024 1 12, ymd2ord 2024 1 12)
   \<and> date_range (ymd2ord 2024 1 12) (ymd2ord 2024 1 12) = [738897]"
  using normalized_range_clamped [of get_holiday_list
     "\<lparr>task_id = 1, userstory_id = 7, assigned_to = Some ''ann'',
      start_date = ymd2ord 2024 1 12, end_date = ymd2ord 2024 1 10, actual_time = 8\<rparr>"]
  by (simp add: normalized_range_def Let_def date_range_def get_holiday_list_ordinals
      validate_start_date_end_date_def weekend_skip_def weekday_def holiday_loop.simps
      ymd2ord_def days_before_year_def days_before_month_def is_leap_def)

text \<open>
  C8. For every start date, end date and holiday list \<^verbatim>\<open>get_work_day\<close> returns
  the number of dates of the inclusive range that are neither Saturday/Sunday nor in the
  holiday list, and 1 when that number is zero. The divisor \<^verbatim>\<open>total_date\<close>
  of the expander is this result on the normalized range, so it is never zero.
\<close>

theorem get_work_day_positive:
  "get_work_day s e hs =
     (if working_day_count s e hs = 0 then 1 else working_day_count s e hs)
   \<and> working_day_count s e hs = card {d. s \<le> d \<and> d \<le> e \<and> weekday d \<notin> {5, 6} \<and> d \<notin> set hs}
   \<and> 0 < get_work_day s e hs
   \<and> total_date hs row =
       get_work_day (fst (normalized_range hs row)) (snd (normalized_range hs row)) hs
   \<and> real (total_date hs row) \<noteq> 0
   \<and> hour_of hs row = truediv (actual_time row) (real (total_date hs row))"
proof -
  have "{d. s \<le> d \<and> d \<le> e \<and> weekday d \<notin> {5, 6} \<and> d \<notin> set hs}
      = set (filter (working_day hs) [s..e])"
    by (auto simp: working_day_def)
  then have "card {d. s \<le> d \<and> d \<le> e \<and> weekday d \<notin> {5, 6} \<and> d \<notin> set hs}
      = card (set (filter (working_day hs) [s..e]))"
    by (rule arg_cong)
  also have "\<dots> = length (filter (working_day hs) [s..e])"
    by (rule distinct_card) simp
  finally have "working_day_count s e hs
      = card {d. s \<le> d \<and> d \<le> e \<and> weekday d \<notin> {5, 6} \<and> d \<notin> set hs}"
    unfolding working_day_count_def by simp
  moreover have "0 < get_work_day s e hs"
    by (simp add: get_work_day_count)
  moreover have "0 < total_date hs row"
    by (simp add: total_date_def get_work_day_count split: prod.splits)
  ultimately show ?thesis
    by (simp add: get_work_day_count total_date_def hour_of_def split: prod.splits)
qed

text \<open>
  A weekend alone counts no working day and gives 1; the first week of 2024, whose Monday
  is a holiday, gives 4.
\<close>

theorem get_work_day_positive_witness:
  "get_work_day (ymd2ord 2024 1 6) (ymd2ord 2024 1 7) [] = 1
   \<and> working_day_count (ymd2ord 2024 1 6) (ymd2ord 2024 1 7) [] = 0
   \<and> get_work_day (ymd2ord 2024 1 1) (ymd2ord 2024 1 7) get_holiday_list = 4"
  using get_work_day_positive [of "ymd2ord 2024 1 6" "ymd2ord 2024 1 7" "[]"]
    get_work_day_positive [of "ymd2ord 2024 1 1" "ymd2ord 2024 1 7" get_holiday_list]
  by (simp add: get_work_day_count working_day_count_def working_day_def weekday_def
      get_holiday_list_ordinals ymd2ord_def days_before_year_def days_before_month_def
      is_leap_def)





section \<open>Preprocessing the epics: one row per reference\<close>

lemma astype_rows_append:
  "astype_rows xs = Inr rs \<Longrightarrow> astype_rows ys = Inr ss \<Longrightarrow> astype_rows (xs @ ys) = Inr (rs @ ss)"
proof (induction xs arbitrary: rs)
  case Nil
  then show ?case by simp
next
  case (Cons x xs)
  then show ?case
    by (cases x) (auto split: sum.splits)
qed

lemma astype_rows_matches:
  "\<forall>m \<in> set ms. int_of_digits m < 2 ^ 63 \<Longrightarrow>
   astype_rows (map (\<lambda>x. (e, Some x)) ms)
     = Inr (map (\<lambda>m. \<lparr>epic_id = ref e, ep_userstory_id = int_of_digits m,
                       ep_epic_name = subject e\<rparr>) ms)"
  by (induction ms) simp_all

lemma explode_Cons: "explode (e # es) = explode [e] @ explode es"
  by (simp add: explode_def)

lemma explode_one_ok:
  "occurrences e \<noteq> [] \<Longrightarrow> explode [e] = map (\<lambda>x. (e, Some x)) (occurrences e)"
  by (auto simp: explode_def occurrences_def split: option.splits list.splits)

lemma astype_rows_explode:
  "\<forall>e \<in> set epics. occurrences e \<noteq> [] \<and> (\<forall>m \<in> set (occurrences e). int_of_digits m < 2 ^ 63) \<Longrightarrow>
   astype_rows (explode epics)
     = Inr (concat (map (\<lambda>e. map (\<lambda>m. \<lparr>epic_id = ref e, ep_userstory_id = int_of_digits m,
                                          ep_epic_name = subject e\<rparr>) (occurrences e)) epics))"
proof (induction epics)
  case Nil
  show ?case by (simp add: explode_def)
next
  case (Cons e es)
  have one: "astype_rows (explode [e])
      = Inr (map (\<lambda>m. \<lparr>epic_id = ref e, ep_userstory_id = int_of_digits m,
                        ep_epic_name = subject e\<rparr>) (occurrences e))"
    using Cons.prems by (simp add: explode_one_ok astype_rows_matches)
  have rest: "astype_rows (explode es)
      = Inr (concat (map (\<lambda>e. map (\<lambda>m. \<lparr>epic_id = ref e, ep_userstory_id = int_of_digits m,
                                          ep_epic_name = subject e\<rparr>) (occurrences e)) es))"
    using Cons by simp
  show ?case
    using astype_rows_append [OF one rest] by (simp add: explode_Cons [of e es])
qed


lemma astype_rows_null:
  "(e, None) \<in> set xs \<Longrightarrow> \<exists>err. astype_rows xs = Inl err"
proof (induction xs)
  case Nil
  then show ?case by simp
next
  case (Cons x xs)
  then show ?case
    by (cases x) (auto split: sum.splits)
qed

lemma explode_null:
  "e \<in> set epics \<Longrightarrow> occurrences e = [] \<Longrightarrow> (e, None) \<in> set (explode epics)"
  by (auto simp: explode_def occurrences_def split: option.splits list.splits intro!: bexI [of _ e])

text \<open>
  C9, as the code has it. An epic whose cross-reference field is \<^verbatim>\<open>"#12, #45"\<close>
  explodes into exactly two rows, with user story 12 and user story 45 and the same epic
  name. In general, when the field of every epic has at least one occurrence of the
  pattern (each number below \<open>2^63\<close>), preprocessing yields one row per occurrence, in
  order. An epic whose field has no occurrence does not give zero rows: its exploded row
  holds \<^verbatim>\<open>NaN\<close>, and the conversion to integers fails for the whole table.
\<close>

theorem preprocess_epics_rows:
  "preprocess_epics [\<lparr>ref = r, subject = name, related_user_stories = Some ''#12, #45''\<rparr>]
     = Inr [\<lparr>epic_id = r, ep_userstory_id = 12, ep_epic_name = name\<rparr>,
            \<lparr>epic_id = r, ep_userstory_id = 45, ep_epic_name = name\<rparr>]
   \<and> ((\<forall>e \<in> set epics. occurrences e \<noteq> []
          \<and> (\<forall>m \<in> set (occurrences e). int_of_digits m < 2 ^ 63))
        \<longrightarrow> preprocess_epics epics
            = Inr (concat (map (\<lambda>e. map (\<lambda>m. \<lparr>epic_id = ref e, ep_userstory_id = int_of_digits m,
                                                 ep_epic_name = subject e\<rparr>) (occurrences e)) epics)))
   \<and> ((\<exists>e \<in> set epics. occurrences e = []) \<longrightarrow> (\<exists>err. preprocess_epics epics = Inl err))"
proof -
  have a: "preprocess_epics [\<lparr>ref = r, subject = name, related_user_stories = Some ''#12, #45''\<rparr>]
     = Inr [\<lparr>epic_id = r, ep_userstory_id = 12, ep_epic_name = name\<rparr>,
            \<lparr>epic_id = r, ep_userstory_id = 45, ep_epic_name = name\<rparr>]"
    by (simp add: preprocess_epics_def explode_def is_digit_def int_of_digits_def)
  have b: "(\<exists>e \<in> set epics. occurrences e = []) \<longrightarrow> (\<exists>err. preprocess_epics epics = Inl err)"
  proof (cases "epics \<noteq> [] \<and> list_all (\<lambda>e. related_user_stories e = None) epics")
    case True
    then show ?thesis
      by (simp add: preprocess_epics_def)
  next
    case False
    then have "preprocess_epics epics = astype_rows (explode epics)"
      by (auto simp: preprocess_epics_def)
    then show ?thesis
      using explode_null astype_rows_null by metis
  qed
  have c: "(\<forall>e \<in> set epics. occurrences e \<noteq> []
          \<and> (\<forall>m \<in> set (occurrences e). int_of_digits m < 2 ^ 63))
        \<longrightarrow> preprocess_epics epics
            = Inr (concat (map (\<lambda>e. map (\<lambda>m. \<lparr>epic_id = ref e, ep_userstory_id = int_of_digits m,
                                                 ep_epic_name = subject e\<rparr>) (occurrences e)) epics))"
  proof
    assume h: "\<forall>e \<in> set epics. occurrences e \<noteq> []
          \<and> (\<forall>m \<in> set (occurrences e). int_of_digits m < 2 ^ 63)"
    have "\<not> (epics \<noteq> [] \<and> list_all (\<lambda>e. related_user_stories e = None) epics)"
    proof
      assume "epics \<noteq> [] \<and> list_all (\<lambda>e. related_user_stories e = None) epics"
      then obtain e where "e \<in> set epics" and "related_user_stories e = None"
        by (cases epics) (auto simp: list_all_iff)
      with h show False
        by (auto simp: occurrences_def)
    qed
    then have "preprocess_epics epics = astype_rows (explode epics)"
      by (auto simp: preprocess_epics_def)
    with astype_rows_explode [OF h] show "preprocess_epics epics
            = Inr (concat (map (\<lambda>e. map (\<lambda>m. \<lparr>epic_id = ref e, ep_userstory_id = int_of_digits m,
                                                 ep_epic_name = subject e\<rparr>) (occurrences e)) epics))"
      by simp
  qed
  from a c b show ?thesis
    by (intro conjI)
qed

text \<open>
  Two epics with three references give three rows; a table with an epic whose field is
  empty gives an error.
\<close>

theorem preprocess_epics_rows_witness:
  "preprocess_epics
     [\<lparr>ref = 3, subject = ''Billing'', related_user_stories = Some ''see #12 and #45''\<rparr>,
      \<lparr>ref = 4, subject = ''Search'', related_user_stories = Some ''#7''\<rparr>]
     = Inr [\<lparr>epic_id = 3, ep_userstory_id = 12, ep_epic_name = ''Billing''\<rparr>,
            \<lparr>epic_id = 3, ep_userstory_id = 45, ep_epic_name = ''Billing''\<rparr>,
            \<lparr>epic_id = 4, ep_userstory_id = 7, ep_epic_name = ''Search''\<rparr>]
   \<and> occurrences \<lparr>ref = 3, subject = ''Billing'', related_user_stories = Some ''see #12 and #45''\<rparr>
       = [''12'', ''45'']
   \<and> (\<exists>err. preprocess_epics
        [\<lparr>ref = 3, subject = ''Billing'', related_user_stories = Some ''#12''\<rparr>,
         \<lparr>ref = 4, subject = ''Search'', related_user_stories = None\<rparr>] = Inl err)"
  using preprocess_epics_rows [of 0 "[]"
       "[\<lparr>ref = 3, subject = ''Billing'', related_user_stories = Some ''see #12 and #45''\<rparr>,
         \<lparr>ref = 4, subject = ''Search'', related_user_stories = Some ''#7''\<rparr>]"]
    preprocess_epics_rows [of 0 "[]"
       "[\<lparr>ref = 3, subject = ''Billing'', related_user_stories = Some ''#12''\<rparr>,
         \<lparr>ref = 4, subject = ''Search'', related_user_stories = None\<rparr>]"]
  by (simp add: occurrences_def is_digit_def int_of_digits_def)

text \<open>
  C9 as stated fails for an epic that references no user story: the pattern occurs zero
  times, yet preprocessing does not return a table without rows for it, it raises.
\<close>

theorem preprocess_epics_no_reference:
  "occurrences \<lparr>ref = 3, subject = ''Billing'', related_user_stories = Some ''no stories yet''\<rparr> = []
   \<and> preprocess_epics
        [\<lparr>ref = 3, subject = ''Billing'', related_user_stories = Some ''no stories yet''\<rparr>]
       = Inl ValueError"
  by (simp add: preprocess_epics_def explode_def occurrences_def is_digit_def)

section \<open>The merge keeps one row per task\<close>

lemma filter_key_distinct:
  "distinct (map f xs) \<Longrightarrow> filter (\<lambda>x. f x = k) xs = (case find (\<lambda>x. f x = k) xs of None \<Rightarrow> [] | Some x \<Rightarrow> [x])"
proof (induction xs)
  case Nil
  show ?case by simp
next
  case (Cons x xs)
  show ?case
  proof (cases "f x = k")
    case True
    with Cons.prems have "k \<notin> f ` set xs"
      by simp
    then have "\<forall>y \<in> set xs. f y \<noteq> k"
      by blast
    then have "filter (\<lambda>y. f y = k) xs = []"
      by (simp add: filter_empty_conv)
    with True show ?thesis by simp
  next
    case False
    with Cons show ?thesis by simp
  qed
qed

lemma left_merge_distinct:
  "distinct (map right_on right) \<Longrightarrow>
   left_merge left_on right_on join left right
     = Inr (map (\<lambda>l. join l (find (\<lambda>r. right_on r = left_on l) right)) left)"
proof -
  assume d: "distinct (map right_on right)"
  have "concat (map (\<lambda>l.
             case filter (\<lambda>r. right_on r = left_on l) right of
               [] \<Rightarrow> [join l None]
             | m # ms \<Rightarrow> map (\<lambda>r. join l (Some r)) (m # ms)) left)
      = map (\<lambda>l. join l (find (\<lambda>r. right_on r = left_on l) right)) left"
    by (induction left) (simp_all add: filter_key_distinct [OF d] split: option.splits)
  with d show ?thesis
    by (simp add: left_merge_def)
qed

lemma merge_data_distinct:
  "distinct (map us_userstory_id userstories) \<Longrightarrow> distinct (map ep_userstory_id epics) \<Longrightarrow>
   merge_data tasks userstories epics
     = Inr (map (\<lambda>t. join_epic
                    (join_userstory t (find (\<lambda>u. us_userstory_id u = userstory_id t) userstories))
                    (find (\<lambda>e. ep_userstory_id e = userstory_id t) epics)) tasks)"
  by (simp add: merge_data_def left_merge_distinct join_userstory_def comp_def)

lemma merge_data_error:
  "\<not> (distinct (map us_userstory_id userstories) \<and> distinct (map ep_userstory_id epics)) \<Longrightarrow>
   merge_data tasks userstories epics = Inl MergeError"
  by (auto simp: merge_data_def left_merge_def split: sum.splits)


text \<open>
  C4, as the code has it. \<^verbatim>\<open>merge_data\<close> fails with \<^verbatim>\<open>MergeError\<close> when a
  user story id occurs twice in the user-story table, and when a user story id occurs
  twice in the exploded epic table: that is the case when the table maps one user story
  id to two epics, and also when one epic names the same user story twice. When neither
  table repeats a user story id the merge succeeds, and whenever it succeeds the result
  has exactly one row per task, in the order of the task table.
\<close>

theorem merge_data_cardinality:
  "(\<not> distinct (map us_userstory_id userstories)
      \<longrightarrow> merge_data tasks userstories epics = Inl MergeError)
   \<and> ((\<exists>a \<in> set epics. \<exists>b \<in> set epics.
          ep_userstory_id a = ep_userstory_id b \<and> epic_id a \<noteq> epic_id b)
      \<longrightarrow> merge_data tasks userstories epics = Inl MergeError)
   \<and> (\<not> distinct (map ep_userstory_id epics)
      \<longrightarrow> merge_data tasks userstories epics = Inl MergeError)
   \<and> (distinct (map us_userstory_id userstories) \<and> distinct (map ep_userstory_id epics)
      \<longrightarrow> (\<exists>rows. merge_data tasks userstories epics = Inr rows
            \<and> length rows = length tasks \<and> map task_id rows = map task_id tasks))
   \<and> (\<forall>rows. merge_data tasks userstories epics = Inr rows \<longrightarrow> length rows = length tasks)"
proof -
  have two: "(\<exists>a \<in> set epics. \<exists>b \<in> set epics.
          ep_userstory_id a = ep_userstory_id b \<and> epic_id a \<noteq> epic_id b)
      \<longrightarrow> \<not> distinct (map ep_userstory_id epics)"
  proof (intro impI notI)
    assume ex: "\<exists>a \<in> set epics. \<exists>b \<in> set epics.
          ep_userstory_id a = ep_userstory_id b \<and> epic_id a \<noteq> epic_id b"
      and d: "distinct (map ep_userstory_id epics)"
    from d have "inj_on ep_userstory_id (set epics)"
      by (simp add: distinct_map)
    with ex show False
      by (auto dest: inj_onD)
  qed
  have ok: "distinct (map us_userstory_id userstories) \<and> distinct (map ep_userstory_id epics)
      \<longrightarrow> (\<exists>rows. merge_data tasks userstories epics = Inr rows
            \<and> length rows = length tasks \<and> map task_id rows = map task_id tasks)"
    by (simp add: merge_data_distinct join_epic_def join_userstory_def comp_def)
  have len: "\<forall>rows. merge_data tasks userstories epics = Inr rows \<longrightarrow> length rows = length tasks"
  proof (cases "distinct (map us_userstory_id userstories) \<and> distinct (map ep_userstory_id epics)")
    case True
    then show ?thesis by (simp add: merge_data_distinct)
  next
    case False
    then show ?thesis using merge_data_error [of userstories epics tasks] by simp
  qed
  have err: "\<not> distinct (map us_userstory_id userstories) \<or> \<not> distinct (map ep_userstory_id epics)
      \<Longrightarrow> merge_data tasks userstories epics = Inl MergeError"
    using merge_data_error [of userstories epics tasks] by blast
  show ?thesis
    using two ok len err by blast
qed

text \<open>
  Two tasks, one of them pointing to a user story that does not exist, give two rows; a
  repeated user story, or a user story claimed by two epics, gives the error.
\<close>

theorem merge_data_cardinality_witness:
  "merge_data [\<lparr>task_id = 1, userstory_id = 12, assigned_to = Some ''ann'', start_date = 738893, end_date = 738893, actual_time = 8\<rparr>,
               \<lparr>task_id = 2, userstory_id = 99, assigned_to = None, start_date = 738894, end_date = 738894, actual_time = 4\<rparr>]
     [\<lparr>us_userstory_id = 12, us_subject = ''invoice''\<rparr>, \<lparr>us_userstory_id = 13, us_subject = ''login''\<rparr>]
     [\<lparr>epic_id = 3, ep_userstory_id = 12, ep_epic_name = ''Billing''\<rparr>, \<lparr>epic_id = 3, ep_userstory_id = 45, ep_epic_name = ''Billing''\<rparr>]
     = Inr [\<lparr>task_id = 1, userstory_id = 12, assigned_to = Some ''ann'', start_date = 738893, end_date = 738893, actual_time = 8, subject_userstory = Some ''invoice'', epic_id_epic = Some 3, epic_name = Some ''Billing''\<rparr>,
            \<lparr>task_id = 2, userstory_id = 99, assigned_to = None, start_date = 738894, end_date = 738894, actual_time = 4, subject_userstory = None, epic_id_epic = None, epic_name = None\<rparr>]
   \<and> merge_data [\<lparr>task_id = 1, userstory_id = 12, assigned_to = Some ''ann'', start_date = 738893, end_date = 738893, actual_time = 8\<rparr>] [\<lparr>us_userstory_id = 12, us_subject = ''invoice''\<rparr>, \<lparr>us_userstory_id = 12, us_subject = ''invoice''\<rparr>] [\<lparr>epic_id = 3, ep_userstory_id = 12, ep_epic_name = ''Billing''\<rparr>] = Inl MergeError
   \<and> merge_data [\<lparr>task_id = 1, userstory_id = 12, assigned_to = Some ''ann'', start_date = 738893, end_date = 738893, actual_time = 8\<rparr>] [\<lparr>us_userstory_id = 12, us_subject = ''invoice''\<rparr>] [\<lparr>epic_id = 3, ep_userstory_id = 12, ep_epic_name = ''Billing''\<rparr>, \<lparr>epic_id = 4, ep_userstory_id = 12, ep_epic_name = ''Search''\<rparr>] = Inl MergeError"
  using merge_data_cardinality [of "[\<lparr>us_userstory_id = 12, us_subject = ''invoice''\<rparr>, \<lparr>us_userstory_id = 13, us_subject = ''login''\<rparr>]" "[\<lparr>task_id = 1, userstory_id = 12, assigned_to = Some ''ann'', start_date = 738893, end_date = 738893, actual_time = 8\<rparr>,
               \<lparr>task_id = 2, userstory_id = 99, assigned_to = None, start_date = 738894, end_date = 738894, actual_time = 4\<rparr>]" "[\<lparr>epic_id = 3, ep_userstory_id = 12, ep_epic_name = ''Billing''\<rparr>, \<lparr>epic_id = 3, ep_userstory_id = 45, ep_epic_name = ''Billing''\<rparr>]"]
    merge_data_cardinality [of "[\<lparr>us_userstory_id = 12, us_subject = ''invoice''\<rparr>, \<lparr>us_userstory_id = 12, us_subject = ''invoice''\<rparr>]" "[\<lparr>task_id = 1, userstory_id = 12, assigned_to = Some ''ann'', start_date = 738893, end_date = 738893, actual_time = 8\<rparr>]" "[\<lparr>epic_id = 3, ep_userstory_id = 12, ep_epic_name = ''Billing''\<rparr>]"]
    merge_data_cardinality [of "[\<lparr>us_userstory_id = 12, us_subject = ''invoice''\<rparr>]" "[\<lparr>task_id = 1, userstory_id = 12, assigned_to = Some ''ann'', start_date = 738893, end_date = 738893, actual_time = 8\<rparr>]" "[\<lparr>epic_id = 3, ep_userstory_id = 12, ep_epic_name = ''Billing''\<rparr>, \<lparr>epic_id = 4, ep_userstory_id = 12, ep_epic_name = ''Search''\<rparr>]"]
  by (simp add: merge_data_def left_merge_def join_userstory_def join_epic_def)

text \<open>
  C4 as stated fails when one epic names user story 12 twice: no user story id is
  repeated in the user-story table and user story 12 belongs to the one epic 3, so
  neither violation of the claim occurs, yet the exploded table has two rows for it and
  the merge raises instead of returning one row per task.
\<close>

theorem merge_data_same_epic_twice:
  "preprocess_epics [\<lparr>ref = 3, subject = ''Billing'', related_user_stories = Some ''#12, #12''\<rparr>]
     = Inr [\<lparr>epic_id = 3, ep_userstory_id = 12, ep_epic_name = ''Billing''\<rparr>,
            \<lparr>epic_id = 3, ep_userstory_id = 12, ep_epic_name = ''Billing''\<rparr>]
   \<and> distinct (map us_userstory_id [\<lparr>us_userstory_id = 12, us_subject = ''invoice''\<rparr>])
   \<and> epic_id ` set [\<lparr>epic_id = 3, ep_userstory_id = 12, ep_epic_name = ''Billing''\<rparr>,
            \<lparr>epic_id = 3, ep_userstory_id = 12, ep_epic_name = ''Billing''\<rparr>] = {3}
   \<and> merge_data
       [\<lparr>task_id = 1, userstory_id = 12, assigned_to = Some ''ann'', start_date = 738893,
        end_date = 738893, actual_time = 8\<rparr>]
       [\<lparr>us_userstory_id = 12, us_subject = ''invoice''\<rparr>]
       [\<lparr>epic_id = 3, ep_userstory_id = 12, ep_epic_name = ''Billing''\<rparr>,
        \<lparr>epic_id = 3, ep_userstory_id = 12, ep_epic_name = ''Billing''\<rparr>] = Inl MergeError"
  by (simp add: preprocess_epics_def explode_def is_digit_def int_of_digits_def
      merge_data_def left_merge_def join_userstory_def join_epic_def)

section \<open>The calendar aggregator, step by step\<close>

lemma set_keyed:
  "set (List.map_filter (\<lambda>r. map_option (Pair (date r)) (key r)) rows)
     = {(date r, k) | r k. r \<in> set rows \<and> key r = Some k}"
  by (induction rows) (auto simp: List.map_filter_simps split: option.splits)

lemma group_hours_absent:
  "(d, k) \<notin> set (List.map_filter (\<lambda>r. map_option (Pair (date r)) (key r)) rows) \<Longrightarrow>
   group_hours key rows d k = 0"
proof -
  assume "(d, k) \<notin> set (List.map_filter (\<lambda>r. map_option (Pair (date r)) (key r)) rows)"
  then have "\<forall>r \<in> set rows. \<not> (date r = d \<and> key r = Some k)"
    unfolding set_keyed by blast
  then have "filter (\<lambda>r. date r = d \<and> key r = Some k) rows = []"
    by (simp add: filter_empty_conv)
  then show ?thesis
    by (simp add: group_hours_def)
qed

lemma map_of_groupby_sum:
  "map_of (groupby_sum key rows) (d, k)
     = (if (d, k) \<in> set (List.map_filter (\<lambda>r. map_option (Pair (date r)) (key r)) rows)
        then Some (group_hours key rows d k) else None)"
proof -
  let ?gs = "sort (remdups (List.map_filter (\<lambda>r. map_option (Pair (date r)) (key r)) rows))"
  have "groupby_sum key rows = map (\<lambda>p. (p, group_hours key rows (fst p) (snd p))) ?gs"
    unfolding groupby_sum_def by (rule map_cong) auto
  then have "map_of (groupby_sum key rows) (d, k)
      = ((Some \<circ> (\<lambda>p. group_hours key rows (fst p) (snd p))) |` set ?gs) (d, k)"
    by (simp add: map_of_map_restrict)
  then show ?thesis
    by (simp add: restrict_map_def)
qed

lemma map_fst_groupby_sum:
  "map fst (groupby_sum key rows)
     = sort (remdups (List.map_filter (\<lambda>r. map_option (Pair (date r)) (key r)) rows))"
proof -
  have "map fst (groupby_sum key rows)
      = map (\<lambda>p. p) (sort (remdups (List.map_filter (\<lambda>r. map_option (Pair (date r)) (key r)) rows)))"
    unfolding groupby_sum_def map_map by (rule map_cong) auto
  then show ?thesis by simp
qed

lemma filled_cell:
  "(case map_of (groupby_sum key rows) (d, k) of None \<Rightarrow> 0 | Some x \<Rightarrow> x)
     = group_hours key rows d k"
  by (simp add: map_of_groupby_sum group_hours_absent)

lemma set_dates_groupby:
  "set (map (fst \<circ> fst) (groupby_sum key rows)) = set (keyed_dates key rows)"
proof -
  have "map (fst \<circ> fst) (groupby_sum key rows) = map fst (map fst (groupby_sum key rows))"
    by simp
  then have "set (map (fst \<circ> fst) (groupby_sum key rows))
      = fst ` {(date r, k) | r k. r \<in> set rows \<and> key r = Some k}"
    unfolding map_fst_groupby_sum by (simp add: set_keyed del: map_map)
  also have "\<dots> = set (keyed_dates key rows)"
    by (force simp: keyed_dates_def image_iff)
  finally show ?thesis .
qed

lemma set_keys_groupby:
  "set (map (snd \<circ> fst) (groupby_sum key rows)) = set (key_values key rows)"
proof -
  have "map (snd \<circ> fst) (groupby_sum key rows) = map snd (map fst (groupby_sum key rows))"
    by simp
  then have "set (map (snd \<circ> fst) (groupby_sum key rows))
      = snd ` {(date r, k) | r k. r \<in> set rows \<and> key r = Some k}"
    unfolding map_fst_groupby_sum by (simp add: set_keyed del: map_map)
  also have "\<dots> = set (key_values key rows)"
    by (force simp: key_values_def List.map_filter_def image_iff)
  finally show ?thesis .
qed


lemma sort_remdups_set_eq:
  "set xs = set ys \<Longrightarrow> sort (remdups xs) = sort (remdups (ys :: 'a :: linorder list))"
  by (metis sorted_list_of_set_sort_remdups)

lemma pivot_groupby_sum:
  "pivot (groupby_sum key rows)
     = Inr \<lparr>index = sort (remdups (keyed_dates key rows)),
            columns = sort (remdups (key_values key rows)),
            cells = map (\<lambda>d. map (\<lambda>k. map_of (groupby_sum key rows) (d, k))
                              (sort (remdups (key_values key rows))))
                      (sort (remdups (keyed_dates key rows)))\<rparr>"
proof -
  have d: "distinct (map fst (groupby_sum key rows))"
    by (simp add: map_fst_groupby_sum)
  have i: "sort (remdups (map (fst \<circ> fst) (groupby_sum key rows)))
      = sort (remdups (keyed_dates key rows))"
    by (rule sort_remdups_set_eq) (rule set_dates_groupby)
  have c: "sort (remdups (map (snd \<circ> fst) (groupby_sum key rows)))
      = sort (remdups (key_values key rows))"
    by (rule sort_remdups_set_eq) (rule set_keys_groupby)
  show ?thesis
    unfolding pivot_def i c using d by simp
qed

lemma fillna_pivot:
  "fillna 0 \<lparr>index = idx, columns = cols,
             cells = map (\<lambda>d. map (\<lambda>k. map_of (groupby_sum key rows) (d, k)) cols) idx\<rparr>
     = \<lparr>index = idx, columns = cols,
        cells = map (\<lambda>d. map (group_hours key rows d) cols) idx\<rparr>"
  by (simp add: fillna_def comp_def filled_cell)

lemma group_hours_no_date:
  "d \<notin> set (keyed_dates key rows) \<Longrightarrow> group_hours key rows d k = 0"
proof (rule group_hours_absent)
  assume "d \<notin> set (keyed_dates key rows)"
  then show "(d, k) \<notin> set (List.map_filter (\<lambda>r. map_option (Pair (date r)) (key r)) rows)"
    unfolding set_keyed by (force simp: keyed_dates_def image_iff)
qed

lemma reindex_filled:
  "set idx = set (keyed_dates key rows) \<Longrightarrow>
   reindex new_index 0
       \<lparr>index = idx, columns = cols, cells = map (\<lambda>d. map (group_hours key rows d) cols) idx\<rparr>
     = \<lparr>index = new_index, columns = cols,
        cells = map (\<lambda>d. map (group_hours key rows d) cols) new_index\<rparr>"
proof -
  assume s: "set idx = set (keyed_dates key rows)"
  have "(case map_of (zip idx (map (\<lambda>d. map (group_hours key rows d) cols) idx)) d of
           None \<Rightarrow> replicate (length cols) 0 | Some row \<Rightarrow> row)
        = map (group_hours key rows d) cols" for d
  proof (cases "d \<in> set idx")
    case True
    then show ?thesis by (simp add: map_of_zip_map)
  next
    case False
    with s have "map (group_hours key rows d) cols = map (\<lambda>k. 0) cols"
      by (simp add: group_hours_no_date)
    with False show ?thesis
      by (simp add: map_of_zip_map map_replicate_const)
  qed
  then show ?thesis
    by (simp add: reindex_def cong: option.case_cong)
qed

lemma hour_per_day_eq:
  assumes "''date'' \<in> set (df_columns df)" and "column \<in> set (df_columns df)"
    and "keyed_dates key (df_rows df) \<noteq> []"
  shows "hour_per_day column key df
     = Inr \<lparr>index = [Min (set (keyed_dates key (df_rows df)))
                       .. Max (set (keyed_dates key (df_rows df)))],
            columns = sort (remdups (key_values key (df_rows df))),
            cells = map (\<lambda>d. map (group_hours key (df_rows df) d)
                              (sort (remdups (key_values key (df_rows df)))))
                      [Min (set (keyed_dates key (df_rows df)))
                       .. Max (set (keyed_dates key (df_rows df)))]\<rparr>"
proof -
  have ne: "sort (remdups (keyed_dates key (df_rows df))) \<noteq> []"
    using assms(3) by (metis set_empty set_remdups set_sort)
  show ?thesis
    unfolding hour_per_day_def pivot_groupby_sum
    using assms(1,2) ne
    by (simp add: fillna_pivot reindex_filled date_range_def Let_def)
qed

lemma hour_per_day_no_key:
  assumes "''date'' \<in> set (df_columns df)" and "column \<in> set (df_columns df)"
    and "keyed_dates key (df_rows df) = []"
  shows "hour_per_day column key df = Inl ValueError"
  unfolding hour_per_day_def pivot_groupby_sum
  using assms by (simp add: fillna_def Let_def)

lemma hour_per_day_no_column:
  "\<not> (''date'' \<in> set (df_columns df) \<and> column \<in> set (df_columns df)) \<Longrightarrow>
   hour_per_day column key df = Inl KeyError"
  by (auto simp: hour_per_day_def)

lemma cell_of_table:
  "d \<in> set idx \<Longrightarrow> k \<in> set cols \<Longrightarrow>
   cell \<lparr>index = idx, columns = cols, cells = map (\<lambda>d. map (g d) cols) idx\<rparr> d k = Some (g d k)"
  by (simp add: cell_def map_of_zip_map)


lemma hour_per_day_Inr:
  assumes "hour_per_day column key df = Inr f"
  shows "''date'' \<in> set (df_columns df) \<and> column \<in> set (df_columns df)
     \<and> keyed_dates key (df_rows df) \<noteq> []
     \<and> f = \<lparr>index = [Min (set (keyed_dates key (df_rows df)))
                        .. Max (set (keyed_dates key (df_rows df)))],
             columns = sort (remdups (key_values key (df_rows df))),
             cells = map (\<lambda>d. map (group_hours key (df_rows df) d)
                               (sort (remdups (key_values key (df_rows df)))))
                       [Min (set (keyed_dates key (df_rows df)))
                        .. Max (set (keyed_dates key (df_rows df)))]\<rparr>"
proof -
  have c: "''date'' \<in> set (df_columns df) \<and> column \<in> set (df_columns df)"
    using assms hour_per_day_no_column [of df column key] by auto
  have k: "keyed_dates key (df_rows df) \<noteq> []"
    using assms c hour_per_day_no_key [of df column key] by auto
  show ?thesis
    using assms c k hour_per_day_eq [of df column key] by simp
qed

lemma keyed_dates_nonempty_rows: "keyed_dates key recs \<noteq> [] \<Longrightarrow> recs \<noteq> []"
  by (auto simp: keyed_dates_def)

lemma keyed_dates_all:
  "\<forall>r \<in> set recs. key r \<noteq> None \<Longrightarrow> keyed_dates key recs = map date recs"
  by (simp add: keyed_dates_def)

lemma keyed_dates_filter:
  "keyed_dates key (filter (\<lambda>r. key r \<noteq> None) recs) = keyed_dates key recs"
  by (simp add: keyed_dates_def)

lemma key_values_filter:
  "key_values key (filter (\<lambda>r. key r \<noteq> None) recs) = key_values key recs"
  by (induction recs) (auto simp: key_values_def List.map_filter_simps)

lemma group_hours_filter:
  "group_hours key (filter (\<lambda>r. key r \<noteq> None) recs) d k = group_hours key recs d k"
proof -
  have "filter (\<lambda>r. date r = d \<and> key r = Some k) (filter (\<lambda>r. key r \<noteq> None) recs)
      = filter (\<lambda>r. date r = d \<and> key r = Some k) recs"
    by (induction recs) auto
  then show ?thesis
    by (simp add: group_hours_def)
qed

lemma group_hours_nonneg:
  "\<forall>r \<in> set recs. 0 \<le> hour r \<Longrightarrow> 0 \<le> group_hours key recs d k"
  unfolding group_hours_def by (rule sum_list_nonneg) auto

lemma group_hours_no_record:
  "\<forall>r \<in> set recs. \<not> (date r = d \<and> key r = Some k) \<Longrightarrow> group_hours key recs d k = 0"
proof -
  assume "\<forall>r \<in> set recs. \<not> (date r = d \<and> key r = Some k)"
  then have "filter (\<lambda>r. date r = d \<and> key r = Some k) recs = []"
    by (simp add: filter_empty_conv)
  then show ?thesis
    by (simp add: group_hours_def)
qed

section \<open>The row index of a calendar series\<close>

lemma DataFrame_columns:
  "recs \<noteq> [] \<Longrightarrow>
     ''date'' \<in> set (df_columns (DataFrame recs))
     \<and> ''assignee'' \<in> set (df_columns (DataFrame recs))
     \<and> ''epic_name'' \<in> set (df_columns (DataFrame recs))"
  by (simp add: DataFrame_def)

lemma DataFrame_rows: "df_rows (DataFrame recs) = recs"
  by (simp add: DataFrame_def)

lemma hour_per_day_index:
  assumes "keyed_dates key recs \<noteq> []"
    and "column = ''assignee'' \<or> column = ''epic_name''"
  shows "\<exists>f. hour_per_day column key (DataFrame recs) = Inr f
     \<and> index f = date_range (Min (set (keyed_dates key recs))) (Max (set (keyed_dates key recs)))"
proof -
  have "recs \<noteq> []"
    using assms(1) by (rule keyed_dates_nonempty_rows)
  then have "''date'' \<in> set (df_columns (DataFrame recs))"
    and "column \<in> set (df_columns (DataFrame recs))"
    using assms(2) DataFrame_columns [of recs] by auto
  then show ?thesis
    using hour_per_day_eq [of "DataFrame recs" column key] assms(1)
    by (simp add: DataFrame_rows date_range_def)
qed

lemma date_range_shape:
  "distinct (date_range lo hi) \<and> sorted (date_range lo hi)
   \<and> set (date_range lo hi) = {d. lo \<le> d \<and> d \<le> hi}
   \<and> (\<forall>i. Suc i < length (date_range lo hi)
          \<longrightarrow> date_range lo hi ! Suc i = date_range lo hi ! i + 1)"
  by (auto simp: date_range_def)


lemma hour_per_day_index_shape:
  assumes "hour_per_day column key df = Inr f"
  shows "index f = date_range (Min (set (keyed_dates key (df_rows df))))
                    (Max (set (keyed_dates key (df_rows df))))
        \<and> distinct (index f) \<and> sorted (index f)
        \<and> set (index f) = {d. Min (set (keyed_dates key (df_rows df))) \<le> d
                               \<and> d \<le> Max (set (keyed_dates key (df_rows df)))}
        \<and> (\<forall>i. Suc i < length (index f) \<longrightarrow> index f ! Suc i = index f ! i + 1)"
proof -
  have "index f = date_range (Min (set (keyed_dates key (df_rows df))))
                    (Max (set (keyed_dates key (df_rows df))))"
    using hour_per_day_Inr [OF assms] by (simp add: date_range_def)
  then show ?thesis
    using date_range_shape [of "Min (set (keyed_dates key (df_rows df)))"
        "Max (set (keyed_dates key (df_rows df)))"]
    by simp
qed

text \<open>
  C5, as the code has it. Whenever an aggregator returns a series, its row index is the
  run of consecutive calendar dates, without gap or repetition, from the minimum to the
  maximum date among the allocation records whose grouping key (assignee, or epic name)
  is not null, weekends and holidays in between included; and it does return a series
  as soon as one record has a non-null key. Records with a null key are dropped by the
  grouping and do not extend the range. When no key is null these are the minimum and
  the maximum of all dates observed.
\<close>

theorem calendar_index_contiguous:
  "(keyed_dates assignee recs \<noteq> [] \<longrightarrow>
        (\<exists>f. get_assignee_hour_per_day_df (DataFrame recs) = Inr f
           \<and> index f = date_range (Min (set (keyed_dates assignee recs)))
                       (Max (set (keyed_dates assignee recs)))))
   \<and> (keyed_dates daily_epic_name recs \<noteq> [] \<longrightarrow>
        (\<exists>f. get_project_hour_per_day_df (DataFrame recs) = Inr f
           \<and> index f = date_range (Min (set (keyed_dates daily_epic_name recs)))
                       (Max (set (keyed_dates daily_epic_name recs)))))
   \<and> (\<forall>f. get_assignee_hour_per_day_df df = Inr f \<longrightarrow>
        index f = date_range (Min (set (keyed_dates assignee (df_rows df))))
                    (Max (set (keyed_dates assignee (df_rows df))))
        \<and> distinct (index f) \<and> sorted (index f)
        \<and> set (index f) = {d. Min (set (keyed_dates assignee (df_rows df))) \<le> d
                               \<and> d \<le> Max (set (keyed_dates assignee (df_rows df)))}
        \<and> (\<forall>i. Suc i < length (index f) \<longrightarrow> index f ! Suc i = index f ! i + 1))
   \<and> (\<forall>f. get_project_hour_per_day_df df = Inr f \<longrightarrow>
        index f = date_range (Min (set (keyed_dates daily_epic_name (df_rows df))))
                    (Max (set (keyed_dates daily_epic_name (df_rows df))))
        \<and> distinct (index f) \<and> sorted (index f)
        \<and> set (index f) = {d. Min (set (keyed_dates daily_epic_name (df_rows df))) \<le> d
                               \<and> d \<le> Max (set (keyed_dates daily_epic_name (df_rows df)))}
        \<and> (\<forall>i. Suc i < length (index f) \<longrightarrow> index f ! Suc i = index f ! i + 1))
   \<and> ((\<forall>r \<in> set recs. assignee r \<noteq> None) \<longrightarrow> keyed_dates assignee recs = map date recs)
   \<and> ((\<forall>r \<in> set recs. daily_epic_name r \<noteq> None)
        \<longrightarrow> keyed_dates daily_epic_name recs = map date recs)"
proof -
  have a: "(keyed_dates assignee recs \<noteq> [] \<longrightarrow>
        (\<exists>f. get_assignee_hour_per_day_df (DataFrame recs) = Inr f
           \<and> index f = date_range (Min (set (keyed_dates assignee recs)))
                       (Max (set (keyed_dates assignee recs)))))"
    unfolding get_assignee_hour_per_day_df_def using hour_per_day_index by blast
  have b: "(keyed_dates daily_epic_name recs \<noteq> [] \<longrightarrow>
        (\<exists>f. get_project_hour_per_day_df (DataFrame recs) = Inr f
           \<and> index f = date_range (Min (set (keyed_dates daily_epic_name recs)))
                       (Max (set (keyed_dates daily_epic_name recs)))))"
    unfolding get_project_hour_per_day_df_def using hour_per_day_index by blast
  have c: "(\<forall>f. get_assignee_hour_per_day_df df = Inr f \<longrightarrow>
        index f = date_range (Min (set (keyed_dates assignee (df_rows df))))
                    (Max (set (keyed_dates assignee (df_rows df))))
        \<and> distinct (index f) \<and> sorted (index f)
        \<and> set (index f) = {d. Min (set (keyed_dates assignee (df_rows df))) \<le> d
                               \<and> d \<le> Max (set (keyed_dates assignee (df_rows df)))}
        \<and> (\<forall>i. Suc i < length (index f) \<longrightarrow> index f ! Suc i = index f ! i + 1))"
    unfolding get_assignee_hour_per_day_df_def using hour_per_day_index_shape by blast
  have d: "(\<forall>f. get_project_hour_per_day_df df = Inr f \<longrightarrow>
        index f = date_range (Min (set (keyed_dates daily_epic_name (df_rows df))))
                    (Max (set (keyed_dates daily_epic_name (df_rows df))))
        \<and> distinct (index f) \<and> sorted (index f)
        \<and> set (index f) = {d. Min (set (keyed_dates daily_epic_name (df_rows df))) \<le> d
                               \<and> d \<le> Max (set (keyed_dates daily_epic_name (df_rows df)))}
        \<and> (\<forall>i. Suc i < length (index f) \<longrightarrow> index f ! Suc i = index f ! i + 1))"
    unfolding get_project_hour_per_day_df_def using hour_per_day_index_shape by blast
  have e: "(\<forall>r \<in> set recs. assignee r \<noteq> None) \<longrightarrow> keyed_dates assignee recs = map date recs"
    using keyed_dates_all by blast
  have f: "(\<forall>r \<in> set recs. daily_epic_name r \<noteq> None)
        \<longrightarrow> keyed_dates daily_epic_name recs = map date recs"
    using keyed_dates_all by blast
  from a b c d e f show ?thesis
    by (intro conjI)
qed

text \<open>
  Records on Friday 2024-01-05 and Monday 2024-01-08 for one assignee: the series has the
  Saturday and the Sunday between them as rows of zeros.
\<close>

theorem calendar_index_contiguous_witness:
  "get_assignee_hour_per_day_df (DataFrame [\<lparr>date = 738890, assignee = Some ''ann'', daily_epic_name = None, daily_task_id = 2, hour = 4\<rparr>,
       \<lparr>date = 738893, assignee = Some ''ann'', daily_epic_name = Some ''Billing'', daily_task_id = 1, hour = 8\<rparr>])
     = Inr \<lparr>index = [738890, 738891, 738892, 738893], columns = [''ann''],
            cells = [[4], [0], [0], [8]]\<rparr>
   \<and> keyed_dates assignee [\<lparr>date = 738890, assignee = Some ''ann'', daily_epic_name = None, daily_task_id = 2, hour = 4\<rparr>,
       \<lparr>date = 738893, assignee = Some ''ann'', daily_epic_name = Some ''Billing'', daily_task_id = 1, hour = 8\<rparr>] = [738890, 738893]
   \<and> weekday 738891 = 5 \<and> weekday 738892 = 6"
proof -
  have ev: "get_assignee_hour_per_day_df (DataFrame [\<lparr>date = 738890, assignee = Some ''ann'', daily_epic_name = None, daily_task_id = 2, hour = 4\<rparr>,
       \<lparr>date = 738893, assignee = Some ''ann'', daily_epic_name = Some ''Billing'', daily_task_id = 1, hour = 8\<rparr>])
     = Inr \<lparr>index = [738890, 738891, 738892, 738893], columns = [''ann''],
            cells = [[4], [0], [0], [8]]\<rparr>
   \<and> keyed_dates assignee [\<lparr>date = 738890, assignee = Some ''ann'', daily_epic_name = None, daily_task_id = 2, hour = 4\<rparr>,
       \<lparr>date = 738893, assignee = Some ''ann'', daily_epic_name = Some ''Billing'', daily_task_id = 1, hour = 8\<rparr>] = [738890, 738893]
   \<and> weekday 738891 = 5 \<and> weekday 738892 = 6"
    by (simp add: get_project_hour_per_day_df_def get_assignee_hour_per_day_df_def hour_per_day_def DataFrame_def pivot_def
      groupby_sum_def group_hours_def fillna_def reindex_def date_range_def keyed_dates_def
      List.map_filter_simps Let_def weekday_def)
  show ?thesis
    by (rule conjunct2 [OF conjI [OF calendar_index_contiguous [of "[\<lparr>date = 738890, assignee = Some ''ann'', daily_epic_name = None, daily_task_id = 2, hour = 4\<rparr>,
       \<lparr>date = 738893, assignee = Some ''ann'', daily_epic_name = Some ''Billing'', daily_task_id = 1, hour = 8\<rparr>]" "DataFrame [\<lparr>date = 738890, assignee = Some ''ann'', daily_epic_name = None, daily_task_id = 2, hour = 4\<rparr>,
       \<lparr>date = 738893, assignee = Some ''ann'', daily_epic_name = Some ''Billing'', daily_task_id = 1, hour = 8\<rparr>]"] ev]])
qed

text \<open>
  C5 as stated fails for the per-epic series of the same two records, the Friday's epic
  being null: the dates observed run from Friday to Monday, the index holds the Monday
  alone.
\<close>

theorem project_index_skips_null_epic:
  "get_project_hour_per_day_df (DataFrame [\<lparr>date = 738890, assignee = Some ''ann'', daily_epic_name = None, daily_task_id = 2, hour = 4\<rparr>,
       \<lparr>date = 738893, assignee = Some ''ann'', daily_epic_name = Some ''Billing'', daily_task_id = 1, hour = 8\<rparr>])
     = Inr \<lparr>index = [738893], columns = [''Billing''], cells = [[8]]\<rparr>
   \<and> date_range (Min (date ` set [\<lparr>date = 738890, assignee = Some ''ann'', daily_epic_name = None, daily_task_id = 2, hour = 4\<rparr>,
       \<lparr>date = 738893, assignee = Some ''ann'', daily_epic_name = Some ''Billing'', daily_task_id = 1, hour = 8\<rparr>]))
        (Max (date ` set [\<lparr>date = 738890, assignee = Some ''ann'', daily_epic_name = None, daily_task_id = 2, hour = 4\<rparr>,
       \<lparr>date = 738893, assignee = Some ''ann'', daily_epic_name = Some ''Billing'', daily_task_id = 1, hour = 8\<rparr>]))
     = [738890, 738891, 738892, 738893]"
  by (simp add: get_project_hour_per_day_df_def get_assignee_hour_per_day_df_def hour_per_day_def DataFrame_def pivot_def
      groupby_sum_def group_hours_def fillna_def reindex_def date_range_def keyed_dates_def
      List.map_filter_simps Let_def)

section \<open>The cells of a calendar series\<close>

lemma set_key_values:
  "set (key_values key recs) = {k. \<exists>r \<in> set recs. key r = Some k}"
  by (induction recs) (auto simp: key_values_def List.map_filter_simps split: option.splits)

lemma hour_per_day_cells:
  assumes "hour_per_day column key df = Inr f"
  shows "length (cells f) = length (index f)
        \<and> (\<forall>row \<in> set (cells f). length row = length (columns f))
        \<and> set (index f) = {d. Min (set (keyed_dates key (df_rows df))) \<le> d \<and> d \<le> Max (set (keyed_dates key (df_rows df)))}
        \<and> set (columns f) = {k. \<exists>r \<in> set (df_rows df). key r = Some k}
        \<and> (\<forall>d k. Min (set (keyed_dates key (df_rows df))) \<le> d \<and> d \<le> Max (set (keyed_dates key (df_rows df)))
                 \<and> (\<exists>r \<in> set (df_rows df). key r = Some k) \<longrightarrow>
              cell f d k = Some (group_hours key (df_rows df) d k)
              \<and> ((\<forall>r \<in> set (df_rows df). \<not> (date r = d \<and> key r = Some k))
                   \<longrightarrow> cell f d k = Some 0)
              \<and> ((\<forall>r \<in> set (df_rows df). 0 \<le> hour r)
                   \<longrightarrow> (\<exists>v. cell f d k = Some v \<and> 0 \<le> v)))
        \<and> ((\<forall>r \<in> set (df_rows df). 0 \<le> hour r)
             \<longrightarrow> (\<forall>row \<in> set (cells f). \<forall>v \<in> set row. 0 \<le> v))"
proof -
  let ?rows = "df_rows df"
  let ?lo = "Min (set (keyed_dates key ?rows))"
  let ?hi = "Max (set (keyed_dates key ?rows))"
  let ?cols = "sort (remdups (key_values key ?rows))"
  have f: "f = \<lparr>index = [?lo..?hi], columns = ?cols,
                 cells = map (\<lambda>d. map (group_hours key ?rows d) ?cols) [?lo..?hi]\<rparr>"
    using hour_per_day_Inr [OF assms] by simp
  have l1: "length (cells f) = length (index f)"
    by (simp add: f)
  have l2: "\<forall>row \<in> set (cells f). length row = length (columns f)"
    by (auto simp: f)
  have i: "set (index f) = {d. ?lo \<le> d \<and> d \<le> ?hi}"
    by (auto simp: f)
  have k: "set (columns f) = {k. \<exists>r \<in> set ?rows. key r = Some k}"
    by (simp add: f set_key_values)
  have c: "\<forall>d k. ?lo \<le> d \<and> d \<le> ?hi \<and> (\<exists>r \<in> set ?rows. key r = Some k) \<longrightarrow>
      cell f d k = Some (group_hours key ?rows d k)
      \<and> ((\<forall>r \<in> set ?rows. \<not> (date r = d \<and> key r = Some k)) \<longrightarrow> cell f d k = Some 0)
      \<and> ((\<forall>r \<in> set ?rows. 0 \<le> hour r) \<longrightarrow> (\<exists>v. cell f d k = Some v \<and> 0 \<le> v))"
  proof (intro allI impI)
    fix d k
    assume a: "?lo \<le> d \<and> d \<le> ?hi \<and> (\<exists>r \<in> set ?rows. key r = Some k)"
    then have "d \<in> set [?lo..?hi]" and "k \<in> set ?cols"
      by (auto simp: set_key_values)
    then have e: "cell f d k = Some (group_hours key ?rows d k)"
      unfolding f by (rule cell_of_table)
    have z: "(\<forall>r \<in> set ?rows. \<not> (date r = d \<and> key r = Some k)) \<longrightarrow> cell f d k = Some 0"
      using e group_hours_no_record [of ?rows d key k] by simp
    have m: "(\<forall>r \<in> set ?rows. 0 \<le> hour r) \<longrightarrow> (\<exists>v. cell f d k = Some v \<and> 0 \<le> v)"
      using e group_hours_nonneg [of ?rows key d k] by simp
    from e z m show "cell f d k = Some (group_hours key ?rows d k)
      \<and> ((\<forall>r \<in> set ?rows. \<not> (date r = d \<and> key r = Some k)) \<longrightarrow> cell f d k = Some 0)
      \<and> ((\<forall>r \<in> set ?rows. 0 \<le> hour r) \<longrightarrow> (\<exists>v. cell f d k = Some v \<and> 0 \<le> v))"
      by (intro conjI)
  qed
  have n: "(\<forall>r \<in> set ?rows. 0 \<le> hour r)
      \<longrightarrow> (\<forall>row \<in> set (cells f). \<forall>v \<in> set row. 0 \<le> v)"
    using group_hours_nonneg [of ?rows key] by (auto simp: f)
  from l1 l2 i k c n show ?thesis
    by (intro conjI)
qed

text \<open>
  C6, as the code has it. In every series an aggregator returns, the table is full: one
  row of cells per date of the index, one cell per column. The index holds every date
  from the first to the last date of the records whose grouping key is not null, the
  columns are the keys that occur. For each such date and key the cell is the sum of the
  hours of the records with that date and that key: it is exactly 0, never missing,
  when the input has no such record, also on the dates in between that no record has;
  and when no hour value is negative every cell is greater than or equal to zero. A
  date that only records with a null key have, outside that range, has no row.
\<close>

theorem calendar_cells_zero_filled:
  "(\<forall>f. get_assignee_hour_per_day_df df = Inr f \<longrightarrow>
        length (cells f) = length (index f)
        \<and> (\<forall>row \<in> set (cells f). length row = length (columns f))
        \<and> set (index f) = {d. Min (set (keyed_dates assignee (df_rows df))) \<le> d \<and> d \<le> Max (set (keyed_dates assignee (df_rows df)))}
        \<and> set (columns f) = {k. \<exists>r \<in> set (df_rows df). assignee r = Some k}
        \<and> (\<forall>d k. Min (set (keyed_dates assignee (df_rows df))) \<le> d \<and> d \<le> Max (set (keyed_dates assignee (df_rows df)))
                 \<and> (\<exists>r \<in> set (df_rows df). assignee r = Some k) \<longrightarrow>
              cell f d k = Some (group_hours assignee (df_rows df) d k)
              \<and> ((\<forall>r \<in> set (df_rows df). \<not> (date r = d \<and> assignee r = Some k))
                   \<longrightarrow> cell f d k = Some 0)
              \<and> ((\<forall>r \<in> set (df_rows df). 0 \<le> hour r)
                   \<longrightarrow> (\<exists>v. cell f d k = Some v \<and> 0 \<le> v)))
        \<and> ((\<forall>r \<in> set (df_rows df). 0 \<le> hour r)
             \<longrightarrow> (\<forall>row \<in> set (cells f). \<forall>v \<in> set row. 0 \<le> v)))
   \<and> (\<forall>f. get_project_hour_per_day_df df = Inr f \<longrightarrow>
        length (cells f) = length (index f)
        \<and> (\<forall>row \<in> set (cells f). length row = length (columns f))
        \<and> set (index f) = {d. Min (set (keyed_dates daily_epic_name (df_rows df))) \<le> d \<and> d \<le> Max (set (keyed_dates daily_epic_name (df_rows df)))}
        \<and> set (columns f) = {k. \<exists>r \<in> set (df_rows df). daily_epic_name r = Some k}
        \<and> (\<forall>d k. Min (set (keyed_dates daily_epic_name (df_rows df))) \<le> d \<and> d \<le> Max (set (keyed_dates daily_epic_name (df_rows df)))
                 \<and> (\<exists>r \<in> set (df_rows df). daily_epic_name r = Some k) \<longrightarrow>
              cell f d k = Some (group_hours daily_epic_name (df_rows df) d k)
              \<and> ((\<forall>r \<in> set (df_rows df). \<not> (date r = d \<and> daily_epic_name r = Some k))
                   \<longrightarrow> cell f d k = Some 0)
              \<and> ((\<forall>r \<in> set (df_rows df). 0 \<le> hour r)
                   \<longrightarrow> (\<exists>v. cell f d k = Some v \<and> 0 \<le> v)))
        \<and> ((\<forall>r \<in> set (df_rows df). 0 \<le> hour r)
             \<longrightarrow> (\<forall>row \<in> set (cells f). \<forall>v \<in> set row. 0 \<le> v)))"
  unfolding get_assignee_hour_per_day_df_def get_project_hour_per_day_df_def
  by (rule conjI; rule allI; rule impI; erule hour_per_day_cells)

text \<open>
  Two assignees, one on Friday 2024-01-05 and one on Monday 2024-01-08: the series has
  rows of zeros for the Saturday and the Sunday that the reindexing inserts, and the
  theorem gives the cell of the Saturday for the first assignee as 0.
\<close>

theorem calendar_cells_zero_filled_witness:
  "get_assignee_hour_per_day_df (DataFrame [\<lparr>date = 738890, assignee = Some ''ann'', daily_epic_name = None, daily_task_id = 2, hour = 4\<rparr>,
       \<lparr>date = 738893, assignee = Some ''bob'', daily_epic_name = Some ''Billing'', daily_task_id = 1, hour = 8\<rparr>])
     = Inr \<lparr>index = [738890, 738891, 738892, 738893], columns = [''ann'', ''bob''],
            cells = [[4, 0], [0, 0], [0, 0], [0, 8 :: real]]\<rparr>
   \<and> Min (set (keyed_dates assignee [\<lparr>date = 738890, assignee = Some ''ann'', daily_epic_name = None, daily_task_id = 2, hour = 4\<rparr>,
       \<lparr>date = 738893, assignee = Some ''bob'', daily_epic_name = Some ''Billing'', daily_task_id = 1, hour = 8\<rparr>])) = 738890
   \<and> Max (set (keyed_dates assignee [\<lparr>date = 738890, assignee = Some ''ann'', daily_epic_name = None, daily_task_id = 2, hour = 4\<rparr>,
       \<lparr>date = 738893, assignee = Some ''bob'', daily_epic_name = Some ''Billing'', daily_task_id = 1, hour = 8\<rparr>])) = 738893
   \<and> weekday 738891 = 5
   \<and> filter (\<lambda>r. date r = 738891 \<and> assignee r = Some ''ann'') [\<lparr>date = 738890, assignee = Some ''ann'', daily_epic_name = None, daily_task_id = 2, hour = 4\<rparr>,
       \<lparr>date = 738893, assignee = Some ''bob'', daily_epic_name = Some ''Billing'', daily_task_id = 1, hour = 8\<rparr>] = []
   \<and> cell \<lparr>index = [738890, 738891, 738892, 738893], columns = [''ann'', ''bob''],
            cells = [[4, 0], [0, 0], [0, 0], [0, 8 :: real]]\<rparr> 738891 ''ann'' = Some 0
   \<and> cell \<lparr>index = [738890, 738891, 738892, 738893], columns = [''ann'', ''bob''],
            cells = [[4, 0], [0, 0], [0, 0], [0, 8 :: real]]\<rparr> 738893 ''bob'' = Some 8"
proof -
  let ?recs = "[\<lparr>date = 738890, assignee = Some ''ann'', daily_epic_name = None, daily_task_id = 2, hour = 4\<rparr>,
       \<lparr>date = 738893, assignee = Some ''bob'', daily_epic_name = Some ''Billing'', daily_task_id = 1, hour = 8\<rparr>]"
  let ?F = "\<lparr>index = [738890, 738891, 738892, 738893], columns = [''ann'', ''bob''],
            cells = [[4, 0], [0, 0], [0, 0], [0, 8 :: real]]\<rparr>"
  have ev: "get_assignee_hour_per_day_df (DataFrame ?recs) = Inr ?F"
    by (simp add: get_project_hour_per_day_df_def get_assignee_hour_per_day_df_def hour_per_day_def DataFrame_def pivot_def
      groupby_sum_def group_hours_def fillna_def reindex_def date_range_def keyed_dates_def
      cell_def List.map_filter_simps Let_def)
  have lo: "Min (set (keyed_dates assignee ?recs)) = 738890"
    and hi: "Max (set (keyed_dates assignee ?recs)) = 738893"
    by (simp_all add: keyed_dates_def)
  have rows: "df_rows (DataFrame ?recs) = ?recs"
    by (simp add: DataFrame_def)
  note b = calendar_cells_zero_filled [of "DataFrame ?recs", THEN conjunct1, rule_format, OF ev]
  note c = b [THEN conjunct2, THEN conjunct2, THEN conjunct2, THEN conjunct2, THEN conjunct1,
      unfolded rows lo hi, rule_format]
  have sat: "cell ?F 738891 ''ann'' = Some 0"
    using c [of 738891 "''ann''"] by (simp add: group_hours_def)
  have mon: "cell ?F 738893 ''bob'' = Some 8"
    using c [of 738893 "''bob''"] by (simp add: group_hours_def)
  have wd: "weekday 738891 = 5"
    by (simp add: weekday_def)
  have none: "filter (\<lambda>r. date r = 738891 \<and> assignee r = Some ''ann'') ?recs = []"
    by simp
  from ev lo hi wd none sat mon show ?thesis
    by (intro conjI)
qed

text \<open>
  C6 as stated fails for the per-epic series of the same two records, the Friday's epic
  being null: the input has the date Friday and the key Billing and no record for the
  two together, and the series has no cell for them, its only row being the Monday.
\<close>

theorem project_cell_absent_for_null_epic_date:
  "get_project_hour_per_day_df (DataFrame [\<lparr>date = 738890, assignee = Some ''ann'', daily_epic_name = None, daily_task_id = 2, hour = 4\<rparr>,
       \<lparr>date = 738893, assignee = Some ''bob'', daily_epic_name = Some ''Billing'', daily_task_id = 1, hour = 8\<rparr>])
     = Inr \<lparr>index = [738893], columns = [''Billing''], cells = [[8 :: real]]\<rparr>
   \<and> map date [\<lparr>date = 738890, assignee = Some ''ann'', daily_epic_name = None, daily_task_id = 2, hour = 4\<rparr>,
       \<lparr>date = 738893, assignee = Some ''bob'', daily_epic_name = Some ''Billing'', daily_task_id = 1, hour = 8\<rparr>] = [738890, 738893]
   \<and> list_all (\<lambda>r. 0 \<le> hour r) [\<lparr>date = 738890, assignee = Some ''ann'', daily_epic_name = None, daily_task_id = 2, hour = 4\<rparr>,
       \<lparr>date = 738893, assignee = Some ''bob'', daily_epic_name = Some ''Billing'', daily_task_id = 1, hour = 8\<rparr>]
   \<and> filter (\<lambda>r. date r = 738890 \<and> daily_epic_name r = Some ''Billing'') [\<lparr>date = 738890, assignee = Some ''ann'', daily_epic_name = None, daily_task_id = 2, hour = 4\<rparr>,
       \<lparr>date = 738893, assignee = Some ''bob'', daily_epic_name = Some ''Billing'', daily_task_id = 1, hour = 8\<rparr>] = []
   \<and> cell \<lparr>index = [738893], columns = [''Billing''], cells = [[8 :: real]]\<rparr> 738890 ''Billing'' = None"
  by (simp add: get_project_hour_per_day_df_def get_assignee_hour_per_day_df_def hour_per_day_def DataFrame_def pivot_def
      groupby_sum_def group_hours_def fillna_def reindex_def date_range_def keyed_dates_def
      cell_def List.map_filter_simps Let_def)

section \<open>An empty daily table\<close>

lemma length_task_records:
  "length (task_records hs row)
     = working_day_count (fst (normalized_range hs row)) (snd (normalized_range hs row)) hs"
  by (simp add: task_records_eq working_day_count_def split: prod.splits)

lemma row_loop_empty:
  "row_loop hs rows [] = []
     \<longleftrightarrow> (\<forall>row \<in> set rows.
           working_day_count (fst (normalized_range hs row)) (snd (normalized_range hs row)) hs = 0)"
proof -
  have "row_loop hs rows [] = [] \<longleftrightarrow> (\<forall>row \<in> set rows. task_records hs row = [])"
    by (simp add: row_loop_concat)
  also have "\<dots> \<longleftrightarrow> (\<forall>row \<in> set rows. length (task_records hs row) = 0)"
    by simp
  finally show ?thesis
    unfolding length_task_records .
qed

lemma hour_per_day_empty_frame:
  "hour_per_day column key (DataFrame []) = Inl KeyError"
  by (simp add: hour_per_day_def DataFrame_def)

lemma hour_per_day_needs_rows:
  "hour_per_day column key (DataFrame recs) = Inr f \<Longrightarrow> recs \<noteq> []"
  using hour_per_day_empty_frame [of column key] by auto

text \<open>
  C10. The merged table yields no allocation record exactly when every one of its rows
  has a normalized range without a working day (in particular when it has no row). The
  daily table built from no record has no columns, and both aggregators fail on it with
  \<^verbatim>\<open>KeyError\<close>, the grouping columns being absent. So an aggregator returns a
  series only for a table with at least one allocation record. The holiday list is a
  parameter here; \<^verbatim>\<open>get_task_daily_df\<close> runs with the list of the program.
\<close>

theorem empty_daily_table_fails:
  "get_task_daily_df rows = DataFrame (row_loop get_holiday_list rows [])
   \<and> (row_loop hs rows [] = []
        \<longleftrightarrow> (\<forall>row \<in> set rows.
              working_day_count (fst (normalized_range hs row)) (snd (normalized_range hs row)) hs = 0))
   \<and> (row_loop hs rows [] = [] \<longrightarrow>
        df_columns (DataFrame (row_loop hs rows [])) = []
        \<and> get_assignee_hour_per_day_df (DataFrame (row_loop hs rows [])) = Inl KeyError
        \<and> get_project_hour_per_day_df (DataFrame (row_loop hs rows [])) = Inl KeyError)
   \<and> (\<forall>f. get_assignee_hour_per_day_df (DataFrame recs) = Inr f \<longrightarrow> recs \<noteq> [])
   \<and> (\<forall>f. get_project_hour_per_day_df (DataFrame recs) = Inr f \<longrightarrow> recs \<noteq> [])"
proof -
  have a: "get_task_daily_df rows = DataFrame (row_loop get_holiday_list rows [])"
    by (simp add: get_task_daily_df_def)
  have c: "row_loop hs rows [] = [] \<longrightarrow>
        df_columns (DataFrame (row_loop hs rows [])) = []
        \<and> get_assignee_hour_per_day_df (DataFrame (row_loop hs rows [])) = Inl KeyError
        \<and> get_project_hour_per_day_df (DataFrame (row_loop hs rows [])) = Inl KeyError"
  proof
    assume e: "row_loop hs rows [] = []"
    have "df_columns (DataFrame []) = []"
      by (simp add: DataFrame_def)
    then show "df_columns (DataFrame (row_loop hs rows [])) = []
        \<and> get_assignee_hour_per_day_df (DataFrame (row_loop hs rows [])) = Inl KeyError
        \<and> get_project_hour_per_day_df (DataFrame (row_loop hs rows [])) = Inl KeyError"
      unfolding e get_assignee_hour_per_day_df_def get_project_hour_per_day_df_def
      by (simp add: hour_per_day_empty_frame)
  qed
  have d: "\<forall>f. get_assignee_hour_per_day_df (DataFrame recs) = Inr f \<longrightarrow> recs \<noteq> []"
    unfolding get_assignee_hour_per_day_df_def using hour_per_day_needs_rows by blast
  have e: "\<forall>f. get_project_hour_per_day_df (DataFrame recs) = Inr f \<longrightarrow> recs \<noteq> []"
    unfolding get_project_hour_per_day_df_def using hour_per_day_needs_rows by blast
  from a row_loop_empty [of hs rows] c d e show ?thesis
    by (intro conjI)
qed

text \<open>
  The empty merged table, and a single task on a Friday that is the only holiday of the
  list: no record, no columns, \<^verbatim>\<open>KeyError\<close>.
\<close>

theorem empty_daily_table_fails_witness:
  "get_assignee_hour_per_day_df (get_task_daily_df []) = Inl KeyError
   \<and> get_project_hour_per_day_df (get_task_daily_df []) = Inl KeyError
   \<and> df_columns (get_task_daily_df []) = []
   \<and> row_loop [738890] [\<lparr>task_id = 1, userstory_id = 7, assigned_to = Some ''ann'', start_date = 738890, end_date = 738890, actual_time = 8, subject_userstory = None, epic_id_epic = None, epic_name = None\<rparr>] [] = []
   \<and> get_assignee_hour_per_day_df (DataFrame (row_loop [738890] [\<lparr>task_id = 1, userstory_id = 7, assigned_to = Some ''ann'', start_date = 738890, end_date = 738890, actual_time = 8, subject_userstory = None, epic_id_epic = None, epic_name = None\<rparr>] [])) = Inl KeyError"
proof -
  have ev: "get_assignee_hour_per_day_df (get_task_daily_df []) = Inl KeyError
   \<and> get_project_hour_per_day_df (get_task_daily_df []) = Inl KeyError
   \<and> df_columns (get_task_daily_df []) = []
   \<and> row_loop [738890] [\<lparr>task_id = 1, userstory_id = 7, assigned_to = Some ''ann'', start_date = 738890, end_date = 738890, actual_time = 8, subject_userstory = None, epic_id_epic = None, epic_name = None\<rparr>] [] = []
   \<and> get_assignee_hour_per_day_df (DataFrame (row_loop [738890] [\<lparr>task_id = 1, userstory_id = 7, assigned_to = Some ''ann'', start_date = 738890, end_date = 738890, actual_time = 8, subject_userstory = None, epic_id_epic = None, epic_name = None\<rparr>] [])) = Inl KeyError"
    by (simp add: get_task_daily_df_def row_body_def task_records_eq hour_of_def truediv_values total_date_def get_work_day_count normalized_range_def Let_def working_day_count_def working_day_def weekday_def get_holiday_list_ordinals validate_start_date_end_date_def weekend_skip_def holiday_loop.simps get_project_hour_per_day_df_def get_assignee_hour_per_day_df_def hour_per_day_def DataFrame_def pivot_def groupby_sum_def group_hours_def fillna_def reindex_def date_range_def keyed_dates_def cell_def List.map_filter_simps)
  show ?thesis
    by (rule conjunct2 [OF conjI [OF empty_daily_table_fails [of "[\<lparr>task_id = 1, userstory_id = 7, assigned_to = Some ''ann'', start_date = 738890, end_date = 738890, actual_time = 8, subject_userstory = None, epic_id_epic = None, epic_name = None\<rparr>]" "[738890]" "[]"] ev]])
qed

section \<open>Rows without an epic\<close>

lemma keyed_dates_all_null:
  "\<forall>r \<in> set recs. key r = None \<Longrightarrow> keyed_dates key recs = []"
  by (simp add: keyed_dates_def)

lemma hour_per_day_drops_null:
  assumes "hour_per_day column key (DataFrame recs) = Inr f"
    and "column = ''assignee'' \<or> column = ''epic_name''"
  shows "hour_per_day column key (DataFrame (filter (\<lambda>r. key r \<noteq> None) recs)) = Inr f"
proof -
  let ?kept = "filter (\<lambda>r. key r \<noteq> None) recs"
  have k: "keyed_dates key recs \<noteq> []"
    using hour_per_day_Inr [OF assms(1)] by (simp add: DataFrame_rows)
  then have k': "keyed_dates key (df_rows (DataFrame ?kept)) \<noteq> []"
    unfolding DataFrame_rows keyed_dates_filter .
  then have "?kept \<noteq> []"
    unfolding DataFrame_rows by (rule keyed_dates_nonempty_rows)
  then have c: "''date'' \<in> set (df_columns (DataFrame ?kept))"
    "column \<in> set (df_columns (DataFrame ?kept))"
    using assms(2) DataFrame_columns [of ?kept] by auto
  have "hour_per_day column key (DataFrame ?kept)
      = Inr \<lparr>index = [Min (set (keyed_dates key recs)) .. Max (set (keyed_dates key recs))],
            columns = sort (remdups (key_values key recs)),
            cells = map (\<lambda>d. map (group_hours key recs d) (sort (remdups (key_values key recs))))
                      [Min (set (keyed_dates key recs)) .. Max (set (keyed_dates key recs))]\<rparr>"
    using hour_per_day_eq [OF c k']
    unfolding DataFrame_rows keyed_dates_filter key_values_filter group_hours_filter .
  also have "\<dots> = Inr f"
    using hour_per_day_Inr [OF assms(1)] by (simp add: DataFrame_rows)
  finally show ?thesis .
qed

lemma merged_rows_nth:
  assumes "distinct (map us_userstory_id userstories)" and "distinct (map ep_userstory_id epics)"
  shows "\<exists>rows. merge_data tasks userstories epics = Inr rows \<and> length rows = length tasks
     \<and> (\<forall>i < length tasks. task_id (rows ! i) = task_id (tasks ! i)
          \<and> (epic_name (rows ! i) = None
               \<longleftrightarrow> userstory_id (tasks ! i) \<notin> ep_userstory_id ` set epics))"
proof -
  have "epic_name (join_epic (join_userstory t u)
          (find (\<lambda>e. ep_userstory_id e = userstory_id t) epics)) = None
      \<longleftrightarrow> userstory_id t \<notin> ep_userstory_id ` set epics" for t u
    by (auto simp: join_epic_def find_None_iff image_iff)
  moreover have "task_id (join_epic (join_userstory t u) e) = task_id t" for t u e
    by (simp add: join_epic_def join_userstory_def)
  ultimately show ?thesis
    unfolding merge_data_distinct [OF assms] by simp
qed

text \<open>
  C3, as the code has it. The merge keeps every task row; its epic name is null exactly
  when no row of the exploded epic table carries the task's user story id (whether the
  user story itself is found plays no part). The allocation records of a row carry its
  epic name. The per-epic series has no group for the null epic name: its columns are
  the epic names that are not null, its index spans the records with an epic only, and
  it is the series of the input with the null-epic records removed, so these records
  are dropped from the aggregation. When every record has a null epic name the
  aggregator fails.
\<close>

theorem null_epic_rows_kept_then_dropped:
  "(distinct (map us_userstory_id userstories) \<and> distinct (map ep_userstory_id epics) \<longrightarrow>
      (\<exists>rows. merge_data tasks userstories epics = Inr rows \<and> length rows = length tasks
         \<and> (\<forall>i < length tasks. task_id (rows ! i) = task_id (tasks ! i)
              \<and> (epic_name (rows ! i) = None
                   \<longleftrightarrow> userstory_id (tasks ! i) \<notin> ep_userstory_id ` set epics))))
   \<and> (\<forall>r \<in> set (task_records hs row). daily_epic_name r = epic_name row)
   \<and> (\<forall>f. get_project_hour_per_day_df (DataFrame recs) = Inr f \<longrightarrow>
         set (columns f) = {k. \<exists>r \<in> set recs. daily_epic_name r = Some k}
         \<and> index f = date_range (Min (set (keyed_dates daily_epic_name recs)))
                        (Max (set (keyed_dates daily_epic_name recs)))
         \<and> get_project_hour_per_day_df
               (DataFrame (filter (\<lambda>r. daily_epic_name r \<noteq> None) recs)) = Inr f)
   \<and> (recs \<noteq> [] \<and> (\<forall>r \<in> set recs. daily_epic_name r = None)
        \<longrightarrow> get_project_hour_per_day_df (DataFrame recs) = Inl ValueError)"
proof -
  have a: "distinct (map us_userstory_id userstories) \<and> distinct (map ep_userstory_id epics) \<longrightarrow>
      (\<exists>rows. merge_data tasks userstories epics = Inr rows \<and> length rows = length tasks
         \<and> (\<forall>i < length tasks. task_id (rows ! i) = task_id (tasks ! i)
              \<and> (epic_name (rows ! i) = None
                   \<longleftrightarrow> userstory_id (tasks ! i) \<notin> ep_userstory_id ` set epics)))"
    using merged_rows_nth by blast
  have b: "\<forall>r \<in> set (task_records hs row). daily_epic_name r = epic_name row"
    by (auto simp: task_records_eq split: prod.splits)
  have c: "\<forall>f. get_project_hour_per_day_df (DataFrame recs) = Inr f \<longrightarrow>
         set (columns f) = {k. \<exists>r \<in> set recs. daily_epic_name r = Some k}
         \<and> index f = date_range (Min (set (keyed_dates daily_epic_name recs)))
                        (Max (set (keyed_dates daily_epic_name recs)))
         \<and> get_project_hour_per_day_df
               (DataFrame (filter (\<lambda>r. daily_epic_name r \<noteq> None) recs)) = Inr f"
  proof (intro allI impI)
    fix f
    assume r: "get_project_hour_per_day_df (DataFrame recs) = Inr f"
    then have h: "hour_per_day ''epic_name'' daily_epic_name (DataFrame recs) = Inr f"
      by (simp add: get_project_hour_per_day_df_def)
    have "set (columns f) = {k. \<exists>r \<in> set recs. daily_epic_name r = Some k}"
      using hour_per_day_Inr [OF h] by (simp add: DataFrame_rows set_key_values)
    moreover have "index f = date_range (Min (set (keyed_dates daily_epic_name recs)))
                        (Max (set (keyed_dates daily_epic_name recs)))"
      using hour_per_day_Inr [OF h] by (simp add: DataFrame_rows date_range_def)
    moreover have "get_project_hour_per_day_df
               (DataFrame (filter (\<lambda>r. daily_epic_name r \<noteq> None) recs)) = Inr f"
      unfolding get_project_hour_per_day_df_def
      by (rule hour_per_day_drops_null [OF h]) simp
    ultimately show "set (columns f) = {k. \<exists>r \<in> set recs. daily_epic_name r = Some k}
         \<and> index f = date_range (Min (set (keyed_dates daily_epic_name recs)))
                        (Max (set (keyed_dates daily_epic_name recs)))
         \<and> get_project_hour_per_day_df
               (DataFrame (filter (\<lambda>r. daily_epic_name r \<noteq> None) recs)) = Inr f"
      by (intro conjI)
  qed
  have d: "recs \<noteq> [] \<and> (\<forall>r \<in> set recs. daily_epic_name r = None)
        \<longrightarrow> get_project_hour_per_day_df (DataFrame recs) = Inl ValueError"
  proof
    assume n: "recs \<noteq> [] \<and> (\<forall>r \<in> set recs. daily_epic_name r = None)"
    then have "keyed_dates daily_epic_name (df_rows (DataFrame recs)) = []"
      by (simp add: DataFrame_rows keyed_dates_all_null)
    moreover have "''date'' \<in> set (df_columns (DataFrame recs))"
      "''epic_name'' \<in> set (df_columns (DataFrame recs))"
      using n DataFrame_columns [of recs] by simp_all
    ultimately show "get_project_hour_per_day_df (DataFrame recs) = Inl ValueError"
      unfolding get_project_hour_per_day_df_def by (simp add: hour_per_day_no_key)
  qed
  from a b c d show ?thesis
    by (intro conjI)
qed

text \<open>
  Task 2 points to user story 99, which no epic claims: its merged row is kept with a
  null epic name; the series of its record and a record of epic Billing has the column
  Billing alone, and the series of its record alone is an error.
\<close>

theorem null_epic_rows_kept_then_dropped_witness:
  "merge_data [\<lparr>task_id = 1, userstory_id = 12, assigned_to = Some ''ann'', start_date = 738893, end_date = 738893, actual_time = 8\<rparr>, \<lparr>task_id = 2, userstory_id = 99, assigned_to = Some ''ann'', start_date = 738890, end_date = 738890, actual_time = 4\<rparr>] [\<lparr>us_userstory_id = 12, us_subject = ''invoice''\<rparr>] [\<lparr>epic_id = 3, ep_userstory_id = 12, ep_epic_name = ''Billing''\<rparr>]
     = Inr [\<lparr>task_id = 1, userstory_id = 12, assigned_to = Some ''ann'', start_date = 738893, end_date = 738893, actual_time = 8, subject_userstory = Some ''invoice'', epic_id_epic = Some 3, epic_name = Some ''Billing''\<rparr>,
            \<lparr>task_id = 2, userstory_id = 99, assigned_to = Some ''ann'', start_date = 738890, end_date = 738890, actual_time = 4, subject_userstory = None, epic_id_epic = None, epic_name = None\<rparr>]
   \<and> get_project_hour_per_day_df (DataFrame [\<lparr>date = 738893, assignee = Some ''ann'', daily_epic_name = Some ''Billing'', daily_task_id = 1, hour = 8\<rparr>, \<lparr>date = 738890, assignee = Some ''ann'', daily_epic_name = None, daily_task_id = 2, hour = 4\<rparr>])
     = Inr \<lparr>index = [738893], columns = [''Billing''], cells = [[8]]\<rparr>
   \<and> get_project_hour_per_day_df (DataFrame [\<lparr>date = 738890, assignee = Some ''ann'', daily_epic_name = None, daily_task_id = 2, hour = 4\<rparr>]) = Inl ValueError"
proof -
  have ev: "merge_data [\<lparr>task_id = 1, userstory_id = 12, assigned_to = Some ''ann'', start_date = 738893, end_date = 738893, actual_time = 8\<rparr>, \<lparr>task_id = 2, userstory_id = 99, assigned_to = Some ''ann'', start_date = 738890, end_date = 738890, actual_time = 4\<rparr>] [\<lparr>us_userstory_id = 12, us_subject = ''invoice''\<rparr>] [\<lparr>epic_id = 3, ep_userstory_id = 12, ep_epic_name = ''Billing''\<rparr>]
     = Inr [\<lparr>task_id = 1, userstory_id = 12, assigned_to = Some ''ann'', start_date = 738893, end_date = 738893, actual_time = 8, subject_userstory = Some ''invoice'', epic_id_epic = Some 3, epic_name = Some ''Billing''\<rparr>,
            \<lparr>task_id = 2, userstory_id = 99, assigned_to = Some ''ann'', start_date = 738890, end_date = 738890, actual_time = 4, subject_userstory = None, epic_id_epic = None, epic_name = None\<rparr>]
   \<and> get_project_hour_per_day_df (DataFrame [\<lparr>date = 738893, assignee = Some ''ann'', daily_epic_name = Some ''Billing'', daily_task_id = 1, hour = 8\<rparr>, \<lparr>date = 738890, assignee = Some ''ann'', daily_epic_name = None, daily_task_id = 2, hour = 4\<rparr>])
     = Inr \<lparr>index = [738893], columns = [''Billing''], cells = [[8]]\<rparr>
   \<and> get_project_hour_per_day_df (DataFrame [\<lparr>date = 738890, assignee = Some ''ann'', daily_epic_name = None, daily_task_id = 2, hour = 4\<rparr>]) = Inl ValueError"
    by (simp add: merge_data_def left_merge_def join_userstory_def join_epic_def get_project_hour_per_day_df_def get_assignee_hour_per_day_df_def hour_per_day_def DataFrame_def pivot_def groupby_sum_def group_hours_def fillna_def reindex_def date_range_def keyed_dates_def cell_def List.map_filter_simps Let_def)
  show ?thesis
    by (rule conjunct2 [OF conjI [OF null_epic_rows_kept_then_dropped
        [of "[\<lparr>us_userstory_id = 12, us_subject = ''invoice''\<rparr>]" "[\<lparr>epic_id = 3, ep_userstory_id = 12, ep_epic_name = ''Billing''\<rparr>]" "[\<lparr>task_id = 1, userstory_id = 12, assigned_to = Some ''ann'', start_date = 738893, end_date = 738893, actual_time = 8\<rparr>, \<lparr>task_id = 2, userstory_id = 99, assigned_to = Some ''ann'', start_date = 738890, end_date = 738890, actual_time = 4\<rparr>]" get_holiday_list "\<lparr>task_id = 2, userstory_id = 99, assigned_to = Some ''ann'', start_date = 738890, end_date = 738890, actual_time = 4, subject_userstory = None, epic_id_epic = None, epic_name = None\<rparr>" "[\<lparr>date = 738893, assignee = Some ''ann'', daily_epic_name = Some ''Billing'', daily_task_id = 1, hour = 8\<rparr>, \<lparr>date = 738890, assignee = Some ''ann'', daily_epic_name = None, daily_task_id = 2, hour = 4\<rparr>]"] ev]])
qed

text \<open>
  C3 as stated fails on the whole pipeline for these two tasks: the 4 hours of task 2 on
  Friday 2024-01-05 are in no column and no row of the per-epic series, which has no
  group for the unknown epic; and for task 2 alone the per-epic aggregation fails.
\<close>

theorem null_epic_task_missing_from_project_series:
  "merge_data [\<lparr>task_id = 1, userstory_id = 12, assigned_to = Some ''ann'', start_date = 738893, end_date = 738893, actual_time = 8\<rparr>, \<lparr>task_id = 2, userstory_id = 99, assigned_to = Some ''ann'', start_date = 738890, end_date = 738890, actual_time = 4\<rparr>] [\<lparr>us_userstory_id = 12, us_subject = ''invoice''\<rparr>] [\<lparr>epic_id = 3, ep_userstory_id = 12, ep_epic_name = ''Billing''\<rparr>]
     = Inr [\<lparr>task_id = 1, userstory_id = 12, assigned_to = Some ''ann'', start_date = 738893, end_date = 738893, actual_time = 8, subject_userstory = Some ''invoice'', epic_id_epic = Some 3, epic_name = Some ''Billing''\<rparr>,
            \<lparr>task_id = 2, userstory_id = 99, assigned_to = Some ''ann'', start_date = 738890, end_date = 738890, actual_time = 4, subject_userstory = None, epic_id_epic = None, epic_name = None\<rparr>]
   \<and> df_rows (get_task_daily_df [\<lparr>task_id = 1, userstory_id = 12, assigned_to = Some ''ann'', start_date = 738893, end_date = 738893, actual_time = 8, subject_userstory = Some ''invoice'', epic_id_epic = Some 3, epic_name = Some ''Billing''\<rparr>,
            \<lparr>task_id = 2, userstory_id = 99, assigned_to = Some ''ann'', start_date = 738890, end_date = 738890, actual_time = 4, subject_userstory = None, epic_id_epic = None, epic_name = None\<rparr>])
     = [\<lparr>date = 738893, assignee = Some ''ann'', daily_epic_name = Some ''Billing'', daily_task_id = 1, hour = 8\<rparr>, \<lparr>date = 738890, assignee = Some ''ann'', daily_epic_name = None, daily_task_id = 2, hour = 4\<rparr>]
   \<and> get_project_hour_per_day_df (get_task_daily_df [\<lparr>task_id = 1, userstory_id = 12, assigned_to = Some ''ann'', start_date = 738893, end_date = 738893, actual_time = 8, subject_userstory = Some ''invoice'', epic_id_epic = Some 3, epic_name = Some ''Billing''\<rparr>,
            \<lparr>task_id = 2, userstory_id = 99, assigned_to = Some ''ann'', start_date = 738890, end_date = 738890, actual_time = 4, subject_userstory = None, epic_id_epic = None, epic_name = None\<rparr>])
     = Inr \<lparr>index = [738893], columns = [''Billing''], cells = [[8]]\<rparr>
   \<and> (\<exists>err. get_project_hour_per_day_df (get_task_daily_df [\<lparr>task_id = 2, userstory_id = 99, assigned_to = Some ''ann'', start_date = 738890, end_date = 738890, actual_time = 4, subject_userstory = None, epic_id_epic = None, epic_name = None\<rparr>]) = Inl err)"
  by (simp add: get_task_daily_df_def row_body_def merge_data_def left_merge_def join_userstory_def join_epic_def task_records_eq hour_of_def truediv_values total_date_def get_work_day_count normalized_range_def Let_def working_day_count_def working_day_def weekday_def get_holiday_list_ordinals validate_start_date_end_date_def weekend_skip_def holiday_loop.simps get_project_hour_per_day_df_def get_assignee_hour_per_day_df_def hour_per_day_def DataFrame_def pivot_def groupby_sum_def group_hours_def fillna_def reindex_def date_range_def keyed_dates_def cell_def List.map_filter_simps)

end
